theory Spec2Isabelle
  imports Complex_Main
begin

section \<open>numpy floating-point values\<close>

text \<open>
  A float64 is modelled as a real number or one of the three special values of IEEE
  arithmetic. In the operations of this section rounding, overflow of finite
  operations and the sign of zero are not modelled: finite values compute exactly
  (the operations with rounding and overflow follow the section on \<open>target.py\<close>). A division by zero is modelled as numpy
  performs it: it raises nothing and yields \<open>nan\<close> (for \<open>0 / 0\<close>) or an infinity.
\<close>

datatype npfloat = Fin real | PInf | NInf | NaN

datatype error =
  ValueError | AttributeError | IndexError | KeyError | TypeError | ConfigurationError

fun signed_inf :: "real \<Rightarrow> npfloat" where
  "signed_inf s = (if s = 0 then NaN else if 0 < s then PInf else NInf)"

fun np_neg :: "npfloat \<Rightarrow> npfloat" where
  "np_neg (Fin a) = Fin (- a)"
| "np_neg PInf = NInf"
| "np_neg NInf = PInf"
| "np_neg NaN = NaN"

fun np_add :: "npfloat \<Rightarrow> npfloat \<Rightarrow> npfloat" where
  "np_add (Fin a) (Fin b) = Fin (a + b)"
| "np_add NaN _ = NaN"
| "np_add _ NaN = NaN"
| "np_add PInf NInf = NaN"
| "np_add NInf PInf = NaN"
| "np_add PInf _ = PInf"
| "np_add _ PInf = PInf"
| "np_add NInf _ = NInf"
| "np_add _ NInf = NInf"

definition np_sub :: "npfloat \<Rightarrow> npfloat \<Rightarrow> npfloat" where
  "np_sub a b = np_add a (np_neg b)"

fun np_mul :: "npfloat \<Rightarrow> npfloat \<Rightarrow> npfloat" where
  "np_mul (Fin a) (Fin b) = Fin (a * b)"
| "np_mul NaN _ = NaN"
| "np_mul _ NaN = NaN"
| "np_mul PInf (Fin b) = signed_inf b"
| "np_mul (Fin a) PInf = signed_inf a"
| "np_mul NInf (Fin b) = signed_inf (- b)"
| "np_mul (Fin a) NInf = signed_inf (- a)"
| "np_mul PInf PInf = PInf"
| "np_mul NInf NInf = PInf"
| "np_mul PInf NInf = NInf"
| "np_mul NInf PInf = NInf"

fun np_div :: "npfloat \<Rightarrow> npfloat \<Rightarrow> npfloat" where
  "np_div (Fin a) (Fin b) = (if b = 0 then signed_inf a else Fin (a / b))"
| "np_div NaN _ = NaN"
| "np_div _ NaN = NaN"
| "np_div (Fin a) PInf = Fin 0"
| "np_div (Fin a) NInf = Fin 0"
| "np_div PInf (Fin b) = (if b < 0 then NInf else PInf)"
| "np_div NInf (Fin b) = (if b < 0 then PInf else NInf)"
| "np_div PInf PInf = NaN"
| "np_div PInf NInf = NaN"
| "np_div NInf PInf = NaN"
| "np_div NInf NInf = NaN"

text \<open>\<open>np.sqrt\<close>: \<open>nan\<close> on a negative argument.\<close>

fun np_sqrt :: "npfloat \<Rightarrow> npfloat" where
  "np_sqrt (Fin a) = (if a < 0 then NaN else Fin (sqrt a))"
| "np_sqrt PInf = PInf"
| "np_sqrt NInf = NaN"
| "np_sqrt NaN = NaN"

text \<open>\<open>np.power(x, 0.5)\<close>: as \<open>np.sqrt\<close>, but C's \<open>pow\<close> maps \<open>-inf\<close> to \<open>+inf\<close>.\<close>

fun np_power_half :: "npfloat \<Rightarrow> npfloat" where
  "np_power_half (Fin a) = (if a < 0 then NaN else Fin (sqrt a))"
| "np_power_half PInf = PInf"
| "np_power_half NInf = PInf"
| "np_power_half NaN = NaN"

definition np_square :: "npfloat \<Rightarrow> npfloat" where
  "np_square a = np_mul a a"

fun is_finite :: "npfloat \<Rightarrow> bool" where
  "is_finite (Fin _) = True"
| "is_finite _ = False"

text \<open>Order of the non-\<open>nan\<close> values; \<open>np.min\<close> and \<open>np.max\<close> propagate \<open>nan\<close>.\<close>

fun np_le :: "npfloat \<Rightarrow> npfloat \<Rightarrow> bool" where
  "np_le (Fin a) (Fin b) = (a \<le> b)"
| "np_le NInf _ = True"
| "np_le _ PInf = True"
| "np_le _ _ = False"

definition np_minimum :: "npfloat \<Rightarrow> npfloat \<Rightarrow> npfloat" where
  "np_minimum a b = (if a = NaN \<or> b = NaN then NaN else if np_le a b then a else b)"

definition np_maximum :: "npfloat \<Rightarrow> npfloat \<Rightarrow> npfloat" where
  "np_maximum a b = (if a = NaN \<or> b = NaN then NaN else if np_le a b then b else a)"

text \<open>\<open>np.min\<close> and \<open>np.max\<close> raise \<open>ValueError\<close> on an empty array.\<close>

fun np_min :: "npfloat list \<Rightarrow> error + npfloat" where
  "np_min [] = Inl ValueError"
| "np_min (x # xs) = Inr (fold np_minimum xs x)"

fun np_max :: "npfloat list \<Rightarrow> error + npfloat" where
  "np_max [] = Inl ValueError"
| "np_max (x # xs) = Inr (fold np_maximum xs x)"

definition np_sum :: "npfloat list \<Rightarrow> npfloat" where
  "np_sum xs = fold (\<lambda>x acc. np_add acc x) xs (Fin 0)"

text \<open>\<open>np.mean\<close>: the sum divided by the number of elements (\<open>nan\<close> on an empty array).\<close>

definition np_mean :: "npfloat list \<Rightarrow> npfloat" where
  "np_mean xs = np_div (np_sum xs) (Fin (real (length xs)))"

text \<open>
  An element-wise operation on two one-dimensional arrays: equal lengths, or one of
  them of length one (broadcast); otherwise numpy raises \<open>ValueError\<close>.
\<close>

definition np_broadcast2 ::
  "('a \<Rightarrow> 'b \<Rightarrow> 'c) \<Rightarrow> 'a list \<Rightarrow> 'b list \<Rightarrow> error + 'c list" where
  "np_broadcast2 f xs ys =
     (if length xs = length ys then Inr (map2 f xs ys)
      else if length xs = 1 then Inr (map (f (hd xs)) ys)
      else if length ys = 1 then Inr (map (\<lambda>x. f x (hd ys)) xs)
      else Inl ValueError)"

section \<open>bartpy/data/target.py\<close>

text \<open>
  The class \<open>Target\<close>. The attributes \<open>original_y_min\<close> and \<open>original_y_max\<close> exist
  only on an object built with \<open>normalize\<close> true: \<open>None\<close> stands for an attribute that
  was never assigned, whose read raises \<open>AttributeError\<close>. The attributes \<open>_y\<close>,
  \<open>_mask\<close>, \<open>_inverse_mask_int\<close>, \<open>_n_obsv\<close> and \<open>_summed_y\<close> carry the prefix
  \<open>tgt\<close> here; \<open>_summed_y\<close> is \<open>None\<close> as in the source when no sum was given.
\<close>

record Target =
  original_y_min :: "npfloat option"
  original_y_max :: "npfloat option"
  tgt_y :: "npfloat list"
  tgt_mask :: "bool list"
  tgt_inverse_mask_int :: "int list"
  tgt_n_obsv :: int
  y_sum_cache_up_to_date :: bool
  tgt_summed_y :: "npfloat option"

definition normalize_y :: "npfloat list \<Rightarrow> error + npfloat list" where
  "normalize_y y =
     (case np_min y of
        Inl e \<Rightarrow> Inl e
      | Inr y_min \<Rightarrow>
          (case np_max y of
             Inl e \<Rightarrow> Inl e
           | Inr y_max \<Rightarrow>
               Inr (map (\<lambda>v. np_add (Fin (- 0.5))
                                (np_div (np_sub v y_min) (np_sub y_max y_min))) y)))"

definition Target_init ::
  "npfloat list \<Rightarrow> bool list \<Rightarrow> int \<Rightarrow> bool \<Rightarrow> npfloat option \<Rightarrow> error + Target" where
  "Target_init y msk n_obsv do_normalize y_sum =
     (case (if do_normalize then
              (case np_min y of
                 Inl e \<Rightarrow> Inl e
               | Inr lo \<Rightarrow>
                   (case np_max y of
                      Inl e \<Rightarrow> Inl e
                    | Inr hi \<Rightarrow>
                        (case normalize_y y of
                           Inl e \<Rightarrow> Inl e
                         | Inr ny \<Rightarrow> Inr (Some lo, Some hi, ny))))
            else Inr (None, None, y)) of
        Inl e \<Rightarrow> Inl e
      | Inr (lo, hi, y') \<Rightarrow>
          Inr \<lparr> original_y_min = lo, original_y_max = hi, tgt_y = y',
                tgt_mask = msk,
                tgt_inverse_mask_int = map (\<lambda>b. if b then 0 else 1) msk,
                tgt_n_obsv = n_obsv,
                y_sum_cache_up_to_date = (y_sum \<noteq> None),
                tgt_summed_y = y_sum \<rparr>)"

definition unnormalize_y :: "Target \<Rightarrow> npfloat list \<Rightarrow> error + npfloat list" where
  "unnormalize_y self y =
     (let distance_from_min = map (\<lambda>v. np_sub v (Fin (- 0.5))) y in
      case original_y_max self of
        None \<Rightarrow> Inl AttributeError
      | Some y_max \<Rightarrow>
          (case original_y_min self of
             None \<Rightarrow> Inl AttributeError
           | Some y_min \<Rightarrow>
               (let total_distance = np_sub y_max y_min in
                Inr (map (\<lambda>d. np_add y_min (np_mul d total_distance)) distance_from_min))))"

definition values_of :: "Target \<Rightarrow> npfloat list" where
  "values_of self = tgt_y self"

definition unnormalized_y :: "Target \<Rightarrow> error + npfloat list" where
  "unnormalized_y self = unnormalize_y self (values_of self)"

definition normalizing_scale :: "Target \<Rightarrow> error + npfloat" where
  "normalizing_scale self =
     (case original_y_max self of
        None \<Rightarrow> Inl AttributeError
      | Some y_max \<Rightarrow>
          (case original_y_min self of
             None \<Rightarrow> Inl AttributeError
           | Some y_min \<Rightarrow> Inr (np_sub y_max y_min)))"

text \<open>
  \<open>summed_y\<close> returns the value together with the object as the call leaves it.
\<close>

definition masked_product :: "Target \<Rightarrow> error + npfloat list" where
  "masked_product self =
     np_broadcast2 (\<lambda>v m. np_mul v (Fin (real_of_int m))) (tgt_y self) (tgt_inverse_mask_int self)"

definition summed_y :: "Target \<Rightarrow> error + (npfloat option \<times> Target)" where
  "summed_y self =
     (if y_sum_cache_up_to_date self then Inr (tgt_summed_y self, self)
      else
        (case masked_product self of
           Inl e \<Rightarrow> Inl e
         | Inr p \<Rightarrow>
             (let self' = self\<lparr> tgt_summed_y := Some (np_sum p) \<rparr>;
                  self'' = self'\<lparr> y_sum_cache_up_to_date := True \<rparr>
              in Inr (tgt_summed_y self'', self''))))"

definition update_y :: "Target \<Rightarrow> npfloat list \<Rightarrow> Target" where
  "update_y self y = (self\<lparr> tgt_y := y \<rparr>)\<lparr> y_sum_cache_up_to_date := False \<rparr>"

section \<open>float64 arithmetic with rounding and overflow\<close>

text \<open>
  The operations of the first section compute finite values exactly. Whether the
  normalization of a target vector can be undone depends on what they leave out: every
  float64 operation rounds its exact result to the nearest representable number, and a
  result beyond the largest finite float64 becomes an infinity. A \<open>float_format\<close> holds
  the rounding function and the largest finite value; \<open>fl_round\<close> rounds a result and
  lets it overflow, and \<open>fl_add\<close>, \<open>fl_sub\<close>, \<open>fl_mul\<close>, \<open>fl_div\<close> are the operations
  of numpy on float64 arrays: the exact operation, then \<open>fl_round\<close>. The sign of zero
  is not modelled.
\<close>

record float_format =
  fl_rnd :: "real \<Rightarrow> real"
  fl_max :: real

fun fl_round :: "float_format \<Rightarrow> npfloat \<Rightarrow> npfloat" where
  "fl_round F (Fin x) =
     (if fl_max F < fl_rnd F x then PInf
      else if fl_rnd F x < - fl_max F then NInf
      else Fin (fl_rnd F x))"
| "fl_round F PInf = PInf"
| "fl_round F NInf = NInf"
| "fl_round F NaN = NaN"

definition fl_add :: "float_format \<Rightarrow> npfloat \<Rightarrow> npfloat \<Rightarrow> npfloat" where
  "fl_add F a b = fl_round F (np_add a b)"

definition fl_sub :: "float_format \<Rightarrow> npfloat \<Rightarrow> npfloat \<Rightarrow> npfloat" where
  "fl_sub F a b = fl_round F (np_sub a b)"

definition fl_mul :: "float_format \<Rightarrow> npfloat \<Rightarrow> npfloat \<Rightarrow> npfloat" where
  "fl_mul F a b = fl_round F (np_mul a b)"

definition fl_div :: "float_format \<Rightarrow> npfloat \<Rightarrow> npfloat \<Rightarrow> npfloat" where
  "fl_div F a b = fl_round F (np_div a b)"

text \<open>
  IEEE 754 binary64. \<open>binade64 x\<close> is the exponent \<open>e\<close> of the binade of \<open>x\<close>, found by
  a search upwards from the smallest one: the largest \<open>e\<close> from \<open>-1022\<close> to \<open>1023\<close> with
  \<open>2 ^ e \<le> \<bar>x\<bar>\<close>, and \<open>-1022\<close> (the subnormal numbers) when there is none. The numbers
  of that binade are the multiples of \<open>2 ^ (e - 52)\<close>, and \<open>rnd64\<close> rounds to the
  nearest of them, a tie to the even multiple. Beyond the largest binade the grid of
  the largest binade is continued, so that a value rounds to more than the largest
  finite number \<open>2 ^ 1024 - 2 ^ 971\<close> exactly when IEEE 754 lets it overflow.
\<close>

fun binade_up :: "nat \<Rightarrow> int \<Rightarrow> real \<Rightarrow> int" where
  "binade_up 0 e a = e"
| "binade_up (Suc k) e a = (if 2 powi (e + 1) \<le> a then binade_up k (e + 1) a else e)"

definition binade64 :: "real \<Rightarrow> int" where
  "binade64 x = binade_up 2045 (- 1022) \<bar>x\<bar>"

definition round_half_even :: "real \<Rightarrow> int" where
  "round_half_even z =
     (let f = \<lfloor>z\<rfloor> in
      if z - real_of_int f < 1 / 2 then f
      else if 1 / 2 < z - real_of_int f then f + 1
      else if even f then f else f + 1)"

definition rnd64 :: "real \<Rightarrow> real" where
  "rnd64 x =
     (let e = binade64 x in
      real_of_int (round_half_even (x * 2 powi (52 - e))) * 2 powi (e - 52))"

definition float64 :: float_format where
  "float64 = \<lparr> fl_rnd = rnd64, fl_max = 2 ^ 1024 - 2 ^ 971 \<rparr>"

text \<open>
  \<open>Target.normalize_y\<close>, the constructor and \<open>Target.unnormalize_y\<close> on float64 arrays
  of a given format: the definitions of the section on \<open>target.py\<close>, with every
  arithmetic operation rounded. (\<open>np.min\<close> and \<open>np.max\<close> select an element and do not
  round.)
\<close>

definition normalize_y_fl :: "float_format \<Rightarrow> npfloat list \<Rightarrow> error + npfloat list" where
  "normalize_y_fl F y =
     (case np_min y of
        Inl e \<Rightarrow> Inl e
      | Inr y_min \<Rightarrow>
          (case np_max y of
             Inl e \<Rightarrow> Inl e
           | Inr y_max \<Rightarrow>
               Inr (map (\<lambda>v. fl_add F (Fin (- 0.5))
                                (fl_div F (fl_sub F v y_min) (fl_sub F y_max y_min))) y)))"

definition Target_init_fl ::
  "float_format \<Rightarrow> npfloat list \<Rightarrow> bool list \<Rightarrow> int \<Rightarrow> bool \<Rightarrow> npfloat option
   \<Rightarrow> error + Target" where
  "Target_init_fl F y msk n_obsv do_normalize y_sum =
     (case (if do_normalize then
              (case np_min y of
                 Inl e \<Rightarrow> Inl e
               | Inr lo \<Rightarrow>
                   (case np_max y of
                      Inl e \<Rightarrow> Inl e
                    | Inr hi \<Rightarrow>
                        (case normalize_y_fl F y of
                           Inl e \<Rightarrow> Inl e
                         | Inr ny \<Rightarrow> Inr (Some lo, Some hi, ny))))
            else Inr (None, None, y)) of
        Inl e \<Rightarrow> Inl e
      | Inr (lo, hi, y') \<Rightarrow>
          Inr \<lparr> original_y_min = lo, original_y_max = hi, tgt_y = y',
                tgt_mask = msk,
                tgt_inverse_mask_int = map (\<lambda>b. if b then 0 else 1) msk,
                tgt_n_obsv = n_obsv,
                y_sum_cache_up_to_date = (y_sum \<noteq> None),
                tgt_summed_y = y_sum \<rparr>)"

definition unnormalize_y_fl :: "float_format \<Rightarrow> Target \<Rightarrow> npfloat list \<Rightarrow> error + npfloat list" where
  "unnormalize_y_fl F self y =
     (let distance_from_min = map (\<lambda>v. fl_sub F v (Fin (- 0.5))) y in
      case original_y_max self of
        None \<Rightarrow> Inl AttributeError
      | Some y_max \<Rightarrow>
          (case original_y_min self of
             None \<Rightarrow> Inl AttributeError
           | Some y_min \<Rightarrow>
               (let total_distance = fl_sub F y_max y_min in
                Inr (map (\<lambda>d. fl_add F y_min (fl_mul F d total_distance)) distance_from_min))))"

text \<open>
  Definitions used to state and prove the bound on the rounding error. A format
  follows the standard model of rounding with relative error \<open>u\<close> and absolute error
  \<open>eta\<close> when every real \<open>x\<close> is rounded to within \<open>u * \<bar>x\<bar> + eta\<close>. \<open>elt_normalize\<close>
  and \<open>elt_unnormalize\<close> are what \<open>normalize_y\<close> and \<open>unnormalize_y\<close> do to one
  element, given the minimum and the maximum; \<open>nrm_real\<close> and \<open>unn_real\<close> are the
  same computations on real numbers, rounded by \<open>r\<close>, for the case that nothing
  overflows.
\<close>

definition rounding_model :: "float_format \<Rightarrow> real \<Rightarrow> real \<Rightarrow> bool" where
  "rounding_model F u eta \<longleftrightarrow>
     0 \<le> u \<and> 0 \<le> eta \<and> (\<forall>x. \<bar>fl_rnd F x - x\<bar> \<le> u * \<bar>x\<bar> + eta)"

definition elt_normalize :: "float_format \<Rightarrow> npfloat \<Rightarrow> npfloat \<Rightarrow> npfloat \<Rightarrow> npfloat" where
  "elt_normalize F lo hi v = fl_add F (Fin (- 0.5)) (fl_div F (fl_sub F v lo) (fl_sub F hi lo))"

definition elt_unnormalize :: "float_format \<Rightarrow> npfloat \<Rightarrow> npfloat \<Rightarrow> npfloat \<Rightarrow> npfloat" where
  "elt_unnormalize F lo hi v = fl_add F lo (fl_mul F (fl_sub F v (Fin (- 0.5))) (fl_sub F hi lo))"

definition nrm_real :: "(real \<Rightarrow> real) \<Rightarrow> real \<Rightarrow> real \<Rightarrow> real \<Rightarrow> real" where
  "nrm_real r lo hi y = r (- 0.5 + r (r (y - lo) / r (hi - lo)))"

definition unn_real :: "(real \<Rightarrow> real) \<Rightarrow> real \<Rightarrow> real \<Rightarrow> real \<Rightarrow> real" where
  "unn_real r lo hi v = r (lo + r (r (v - (- 0.5)) * r (hi - lo)))"

section \<open>bartpy/samplers/scalar.py and the Python store\<close>

text \<open>
  Modelled from the spec: \<open>NormalScalarSampler\<close> (bartpy/samplers/scalar.py is not among
  the sources). It keeps a finite pool of pre-drawn standard-normal samples and an index
  cursor; \<open>sample()\<close> returns the next pooled value and refills the pool with a fresh
  batch when it is exhausted.

  Sampler objects are mutable and live in a store, addressed by reference. The global
  numpy generator is the sequence of the normal draws it will deliver, \<open>np_random\<close>,
  with the number of draws already delivered.
\<close>

record NormalScalarSampler =
  cache_size :: nat
  pool :: "real list"
  cursor :: nat

record pystate =
  np_random :: "nat \<Rightarrow> real"
  np_random_pos :: nat
  heap :: "nat \<Rightarrow> NormalScalarSampler option"
  next_ref :: nat

definition np_random_normal :: "nat \<Rightarrow> pystate \<Rightarrow> real list \<times> pystate" where
  "np_random_normal k st =
     (map (np_random st) [np_random_pos st ..< np_random_pos st + k],
      st\<lparr> np_random_pos := np_random_pos st + k \<rparr>)"

definition NormalScalarSampler_init :: "nat \<Rightarrow> pystate \<Rightarrow> nat \<times> pystate" where
  "NormalScalarSampler_init k st =
     (let (batch, st1) = np_random_normal k st;
          r = next_ref st1
      in (r, st1\<lparr> heap := (heap st1)(r := Some \<lparr> cache_size = k, pool = batch, cursor = 0 \<rparr>),
                   next_ref := Suc r \<rparr>))"

definition NormalScalarSampler_sample :: "nat \<Rightarrow> pystate \<Rightarrow> error + (real \<times> pystate)" where
  "NormalScalarSampler_sample r st =
     (case heap st r of
        None \<Rightarrow> Inl AttributeError
      | Some s \<Rightarrow>
          (let (s1, st1) =
                 (if cursor s < length (pool s) then (s, st)
                  else (let (batch, st') = np_random_normal (cache_size s) st
                        in (s\<lparr> pool := batch, cursor := 0 \<rparr>, st')))
           in if cursor s1 < length (pool s1)
              then Inr (pool s1 ! cursor s1,
                        st1\<lparr> heap := (heap st1)(r := Some (s1\<lparr> cursor := Suc (cursor s1) \<rparr>)) \<rparr>)
              else Inl IndexError))"

section \<open>bartpy/samplers/leafnode.py\<close>

text \<open>
  The classes \<open>Model\<close>, \<open>Sigma\<close> and \<open>LeafNode\<close> are not among the sources; of each,
  the attributes that \<open>LeafNodeSampler\<close> reads are fields here: \<open>model.sigma_m\<close>,
  \<open>model.sigma.current_value()\<close>, \<open>model.n_trees\<close>, \<open>node.data.n_obsv\<close>,
  \<open>node.data.y\<close> and the value that \<open>node.set_value\<close> assigns. The floats among them
  are numpy floats.
\<close>

record Model =
  model_sigma_m :: npfloat
  model_sigma_current_value :: npfloat
  model_n_trees :: int

record NodeData =
  data_n_obsv :: int
  data_y :: "npfloat list"

record LeafNode =
  node_data :: NodeData
  node_value :: npfloat

definition set_value :: "LeafNode \<Rightarrow> npfloat \<Rightarrow> LeafNode" where
  "set_value node v = node\<lparr> node_value := v \<rparr>"

text \<open>
  Python evaluates the default value of a parameter once, when the \<open>def\<close> statement
  runs: importing the module creates the one \<open>NormalScalarSampler(50000)\<close> that every
  later call of \<open>LeafNodeSampler()\<close> without an argument receives. The import returns
  the reference to that object.
\<close>

record LeafNodeSampler =
  scalar_sampler :: nat

definition leafnode_import :: "pystate \<Rightarrow> nat \<times> pystate" where
  "leafnode_import st = NormalScalarSampler_init 50000 st"

definition LeafNodeSampler_init :: "nat \<Rightarrow> nat option \<Rightarrow> LeafNodeSampler" where
  "LeafNodeSampler_init default_scalar_sampler arg =
     \<lparr> scalar_sampler = (case arg of None \<Rightarrow> default_scalar_sampler | Some r \<Rightarrow> r) \<rparr>"

definition LeafNodeSampler_sample ::
  "LeafNodeSampler \<Rightarrow> Model \<Rightarrow> LeafNode \<Rightarrow> pystate \<Rightarrow> error + (npfloat \<times> pystate)" where
  "LeafNodeSampler_sample self model node st =
     (let prior_var = np_mul (model_sigma_m model) (model_sigma_m model);
          n = data_n_obsv (node_data node);
          likihood_var =
            np_div (np_mul (model_sigma_current_value model) (model_sigma_current_value model))
                   (Fin (real_of_int n));
          likihood_mean = np_mean (data_y (node_data node));
          posterior_variance =
            np_div (Fin 1) (np_add (np_div (Fin 1) prior_var) (np_div (Fin 1) likihood_var));
          posterior_mean = np_mul likihood_mean (np_div prior_var (np_add likihood_var prior_var))
      in case NormalScalarSampler_sample (scalar_sampler self) st of
           Inl e \<Rightarrow> Inl e
         | Inr (eps, st') \<Rightarrow>
             Inr (np_add posterior_mean
                    (np_mul (Fin eps)
                       (np_power_half
                          (np_div posterior_variance (Fin (real_of_int (model_n_trees model)))))),
                  st'))"

definition LeafNodeSampler_step ::
  "LeafNodeSampler \<Rightarrow> Model \<Rightarrow> LeafNode \<Rightarrow> pystate \<Rightarrow> error + (npfloat \<times> LeafNode \<times> pystate)" where
  "LeafNodeSampler_step self model node st =
     (case LeafNodeSampler_sample self model node st of
        Inl e \<Rightarrow> Inl e
      | Inr (sampled_value, st') \<Rightarrow> Inr (sampled_value, set_value node sampled_value, st'))"

text \<open>
  The posterior of claim C1, in the spec's words, over the reals: \<open>s\<close> is the residual
  standard deviation, \<open>m\<close> the prior standard deviation, \<open>n\<close> the number of
  observations and \<open>ys\<close> the node's target partition.
\<close>

definition spec_likelihood_var :: "real \<Rightarrow> int \<Rightarrow> real" where
  "spec_likelihood_var s n = s\<^sup>2 / real_of_int n"

definition spec_posterior_variance :: "real \<Rightarrow> real \<Rightarrow> int \<Rightarrow> real" where
  "spec_posterior_variance m s n = 1 / (1 / m\<^sup>2 + real_of_int n / s\<^sup>2)"

definition spec_posterior_mean :: "real \<Rightarrow> real \<Rightarrow> int \<Rightarrow> real list \<Rightarrow> real" where
  "spec_posterior_mean m s n ys =
     (sum_list ys / real (length ys)) * m\<^sup>2 / (spec_likelihood_var s n + m\<^sup>2)"

definition spec_leaf_draw :: "real \<Rightarrow> real \<Rightarrow> int \<Rightarrow> int \<Rightarrow> real list \<Rightarrow> real \<Rightarrow> real" where
  "spec_leaf_draw m s n k ys eps =
     spec_posterior_mean m s n ys + eps * sqrt (spec_posterior_variance m s n / real_of_int k)"

text \<open>
  The same draw in numpy arithmetic, for every value of the arguments: the formulas of
  claim C1 as they are written, \<open>n / sigma^2\<close> in the posterior variance and the
  product \<open>likelihood_mean * prior_var\<close> divided by the sum in the posterior mean.
\<close>

definition spec_np_leaf_draw ::
  "npfloat \<Rightarrow> npfloat \<Rightarrow> int \<Rightarrow> int \<Rightarrow> npfloat list \<Rightarrow> real \<Rightarrow> npfloat" where
  "spec_np_leaf_draw sigma_m sigma n n_trees ys eps =
     (let prior_var = np_mul sigma_m sigma_m;
          likelihood_var = np_div (np_mul sigma sigma) (Fin (real_of_int n));
          likelihood_mean = np_mean ys;
          posterior_variance =
            np_div (Fin 1)
              (np_add (np_div (Fin 1) prior_var)
                      (np_div (Fin (real_of_int n)) (np_mul sigma sigma)));
          posterior_mean =
            np_div (np_mul likelihood_mean prior_var) (np_add likelihood_var prior_var)
      in np_add posterior_mean
           (np_mul (Fin eps) (np_sqrt (np_div posterior_variance (Fin (real_of_int n_trees))))))"

text \<open>Concrete objects, used to run the definitions above.\<close>

definition initial_pystate :: "(nat \<Rightarrow> real) \<Rightarrow> pystate" where
  "initial_pystate g = \<lparr> np_random = g, np_random_pos = 0, heap = (\<lambda>_. None), next_ref = 0 \<rparr>"

definition example_model :: Model where
  "example_model =
     \<lparr> model_sigma_m = Fin 2, model_sigma_current_value = Fin 2, model_n_trees = 1 \<rparr>"

definition example_node :: LeafNode where
  "example_node =
     \<lparr> node_data = \<lparr> data_n_obsv = 3, data_y = [Fin 4, Fin 4, Fin 4] \<rparr>, node_value = Fin 0 \<rparr>"

definition example_pystate :: pystate where
  "example_pystate =
     \<lparr> np_random = (\<lambda>i. 0), np_random_pos = 1,
       heap = (\<lambda>r. if r = 0 then Some \<lparr> cache_size = 1, pool = [3], cursor = 0 \<rparr> else None),
       next_ref = 1 \<rparr>"

section \<open>bartpy/sklearnmodel.py\<close>

subsection \<open>Collaborators that are not among the sources\<close>

text \<open>
  Modelled from the spec: the data container \<open>Data\<close> (bartpy/data.py is not among the
  sources). It holds the covariates and a \<open>Target\<close> over all observations, normalized
  on request, and hands \<open>unnormalize_y\<close>, \<open>unnormalized_y\<close> and \<open>normalizing_scale\<close> to
  that \<open>Target\<close>.
\<close>

record 'x Data =
  dat_X :: 'x
  dat_y :: Target

definition Data_init :: "'x \<Rightarrow> npfloat list \<Rightarrow> bool \<Rightarrow> error + 'x Data" where
  "Data_init X y do_normalize =
     (case Target_init y (replicate (length y) False) (int (length y)) do_normalize None of
        Inl e \<Rightarrow> Inl e
      | Inr t \<Rightarrow> Inr \<lparr> dat_X = X, dat_y = t \<rparr>)"

text \<open>
  A numpy result that is an array or, for the mean of an empty sequence, a scalar.
\<close>

datatype ndarray = Scalar npfloat | Vector "npfloat list"

fun Data_unnormalize_y :: "'x Data \<Rightarrow> ndarray \<Rightarrow> error + ndarray" where
  "Data_unnormalize_y d (Scalar v) =
     (case unnormalize_y (dat_y d) [v] of Inl e \<Rightarrow> Inl e | Inr vs \<Rightarrow> Inr (Scalar (hd vs)))"
| "Data_unnormalize_y d (Vector vs) =
     (case unnormalize_y (dat_y d) vs of Inl e \<Rightarrow> Inl e | Inr vs' \<Rightarrow> Inr (Vector vs'))"

text \<open>
  Of \<open>Sigma\<close> only the constructor's arguments are kept. The class \<open>Model\<close> of the
  ensemble is a type parameter \<open>'m\<close> below; its constructor and its \<open>predict\<close> are
  function parameters.
\<close>

record Sigma =
  sig_a :: real
  sig_b :: real
  sig_scaling_factor :: npfloat

text \<open>
  Modelled from the spec: \<open>UniformMutationProposer\<close>
  (bartpy/samplers/treemutation/uniform/proposer.py is not among the sources). The
  configured grow and prune probabilities must sum to 1; the proposer fails fast
  otherwise.
\<close>

record UniformMutationProposer =
  prob_method :: "real list"

definition UniformMutationProposer_init :: "real list \<Rightarrow> error + UniformMutationProposer" where
  "UniformMutationProposer_init probs =
     (if sum_list probs = 1 then Inr \<lparr> prob_method = probs \<rparr> else Inl ConfigurationError)"

text \<open>
  The sampler objects built by the constructor of \<open>SklearnModel\<close>: the tree mutation
  sampler (proposer and likelihood ratio), and the schedule with its leaf sampler.
\<close>

record TreeMutationSampler =
  tms_proposer :: UniformMutationProposer
  tms_likihood_ratio :: "real list"

record SampleSchedule =
  sched_tree_sampler :: TreeMutationSampler
  sched_leaf_sampler :: LeafNodeSampler

text \<open>
  The extract of one chain is a dictionary from a key to an array: retained models
  under \<open>model\<close>, the prediction matrix under \<open>in_sample_predictions\<close>, acceptance
  entries under \<open>acceptance\<close>. An array is the sequence of its entries along axis 0
  together with the shape of one entry, \<open>shape[1:]\<close>: empty for a one-dimensional
  array, the number of columns for a matrix. A Python list of objects, or an empty
  list, is a one-dimensional array.
\<close>

datatype ('m, 'a) entry = ModelSample 'm | PredictionRow "npfloat list" | AcceptanceEntry 'a

record 'v np_array =
  shape_tail :: "nat list"
  items :: "'v list"

type_synonym 'v chain_extract = "(string \<times> 'v np_array) list"

text \<open>
  Modelled from the spec: the chain sampler \<open>ModelSampler.samples\<close>
  (bartpy/samplers/modelsampler.py is not among the sources). Malformed
  hyperparameters (\<open>n_burn < 0\<close>, \<open>thin\<close> outside \<open>(0, 1]\<close>) fail before any sampling
  begins. Otherwise \<open>n_burn\<close> sweeps run unrecorded, then \<open>n_samples\<close> sweeps of which
  every \<open>round(1 / thin)\<close>-th is recorded: a snapshot of the model, its in-sample
  predictions if stored (a matrix, retained samples by observations), and the
  acceptance entry. One Gibbs sweep is the parameter \<open>sweep\<close>, the in-sample
  predictions of a model the parameter \<open>in_sample\<close>. The second component of the
  result counts the sweeps executed.
\<close>

fun sampling :: "('m \<Rightarrow> 'm \<times> 'a) \<Rightarrow> nat \<Rightarrow> nat \<Rightarrow> nat \<Rightarrow> 'm \<Rightarrow> ('m \<times> 'a) list" where
  "sampling sweep interval i 0 m = []"
| "sampling sweep interval i (Suc c) m =
     (let (m', a) = sweep m
      in (if i mod interval = 0 then [(m', a)] else []) @ sampling sweep interval (Suc i) c m')"

definition ModelSampler_samples ::
  "('m \<Rightarrow> 'm \<times> 'a) \<Rightarrow> ('m \<Rightarrow> npfloat list) \<Rightarrow> 'm \<Rightarrow> int \<Rightarrow> int \<Rightarrow> real \<Rightarrow> bool \<Rightarrow> bool
   \<Rightarrow> (error + ('m, 'a) entry chain_extract) \<times> nat" where
  "ModelSampler_samples sweep in_sample m n_samples n_burn thin store_predictions store_acceptance =
     (if n_burn < 0 \<or> thin \<le> 0 \<or> 1 < thin then (Inl ConfigurationError, 0)
      else
        (let m1 = ((\<lambda>x. fst (sweep x)) ^^ nat n_burn) m;
             recorded = sampling sweep (nat (round (1 / thin))) 0 (nat n_samples) m1
         in (Inr [(''model'',
                     \<lparr> shape_tail = [], items = map (\<lambda>(x, a). ModelSample x) recorded \<rparr>),
                  (''in_sample_predictions'',
                     if store_predictions \<and> recorded \<noteq> []
                     then \<lparr> shape_tail = [length (in_sample (fst (hd recorded)))],
                            items = map (\<lambda>(x, a). PredictionRow (in_sample x)) recorded \<rparr>
                     else \<lparr> shape_tail = [], items = [] \<rparr>),
                  (''acceptance'',
                     \<lparr> shape_tail = [],
                       items = (if store_acceptance
                                then map (\<lambda>(x, a). AcceptanceEntry a) recorded else []) \<rparr>)],
             nat n_burn + nat n_samples)))"

subsection \<open>The class SklearnModel\<close>

text \<open>
  The attributes carry the prefix \<open>sk\<close>. Those that the constructor sets to \<open>None\<close>
  are options. \<open>sk_schedule\<close> stands for \<open>self.schedule\<close> and the \<open>ModelSampler\<close> built
  on it. The attributes \<open>columns\<close>, \<open>extract\<close> and \<open>combined_chains\<close>, which no method
  below reads, are left out.
\<close>

record ('x, 'm, 'a) SklearnModel =
  sk_n_trees :: int
  sk_n_chains :: int
  sk_sigma_a :: real
  sk_sigma_b :: real
  sk_n_samples :: int
  sk_n_burn :: int
  sk_thin :: real
  sk_p_grow :: real
  sk_p_prune :: real
  sk_alpha :: real
  sk_beta :: real
  sk_n_jobs :: int
  sk_store_in_sample_predictions :: bool
  sk_store_acceptance_trace :: bool
  sk_schedule :: SampleSchedule
  sk_sigma :: "Sigma option"
  sk_data :: "'x Data option"
  sk_model :: "'m option"
  sk_prediction_samples :: "npfloat list list option"
  sk_model_samples :: "'m list option"
  sk_acceptance_trace :: "'a list option"

text \<open>
  The constructor. Its last argument is the reference that the import of
  \<open>leafnode.py\<close> returned: \<open>LeafNodeSampler()\<close> is called without an argument.
\<close>

definition SklearnModel_init ::
  "int \<Rightarrow> int \<Rightarrow> real \<Rightarrow> real \<Rightarrow> int \<Rightarrow> int \<Rightarrow> real \<Rightarrow> real \<Rightarrow> real \<Rightarrow> real \<Rightarrow> real
   \<Rightarrow> bool \<Rightarrow> bool \<Rightarrow> int \<Rightarrow> nat \<Rightarrow> error + ('x, 'm, 'a) SklearnModel" where
  "SklearnModel_init n_trees n_chains sigma_a sigma_b n_samples n_burn thin p_grow p_prune
       alpha beta store_in_sample_predictions store_acceptance_trace n_jobs
       default_scalar_sampler =
     (case UniformMutationProposer_init [p_grow, p_prune] of
        Inl e \<Rightarrow> Inl e
      | Inr proposer \<Rightarrow>
          (let likihood_ratio = [p_grow, p_prune];
               tree_sampler = \<lparr> tms_proposer = proposer, tms_likihood_ratio = likihood_ratio \<rparr>;
               schedule = \<lparr> sched_tree_sampler = tree_sampler,
                            sched_leaf_sampler = LeafNodeSampler_init default_scalar_sampler None \<rparr>
           in Inr \<lparr> sk_n_trees = n_trees, sk_n_chains = n_chains, sk_sigma_a = sigma_a,
                    sk_sigma_b = sigma_b, sk_n_samples = n_samples, sk_n_burn = n_burn,
                    sk_thin = thin, sk_p_grow = p_grow, sk_p_prune = p_prune,
                    sk_alpha = alpha, sk_beta = beta, sk_n_jobs = n_jobs,
                    sk_store_in_sample_predictions = store_in_sample_predictions,
                    sk_store_acceptance_trace = store_acceptance_trace,
                    sk_schedule = schedule,
                    sk_sigma = None, sk_data = None, sk_model = None,
                    sk_prediction_samples = None, sk_model_samples = None,
                    sk_acceptance_trace = None \<rparr>))"

definition convert_covariates_to_data :: "'x \<Rightarrow> npfloat list \<Rightarrow> error + 'x Data" where
  "convert_covariates_to_data X y = Data_init X y True"

definition construct_model ::
  "('x Data \<Rightarrow> Sigma \<Rightarrow> int \<Rightarrow> real \<Rightarrow> real \<Rightarrow> 'm) \<Rightarrow> ('x, 'm, 'a) SklearnModel \<Rightarrow> 'x
   \<Rightarrow> npfloat list \<Rightarrow> error + ('m \<times> ('x, 'm, 'a) SklearnModel)" where
  "construct_model Model_init self X y =
     (case convert_covariates_to_data X y of
        Inl e \<Rightarrow> Inl e
      | Inr d \<Rightarrow>
          (case normalizing_scale (dat_y d) of
             Inl e \<Rightarrow> Inl e
           | Inr scale \<Rightarrow>
               (let sigma = \<lparr> sig_a = sk_sigma_a self, sig_b = sk_sigma_b self,
                              sig_scaling_factor = scale \<rparr>;
                    m = Model_init d sigma (sk_n_trees self) (sk_alpha self) (sk_beta self)
                in Inr (m, self\<lparr> sk_data := Some d, sk_sigma := Some sigma,
                                 sk_model := Some m \<rparr>))))"

text \<open>
  \<open>run_chain\<close>: the first argument is \<open>model.sampler.samples\<close>, the second the
  constructor of \<open>Model\<close>.
\<close>

definition run_chain ::
  "('m \<Rightarrow> int \<Rightarrow> int \<Rightarrow> real \<Rightarrow> bool \<Rightarrow> bool \<Rightarrow> (error + 'v chain_extract) \<times> nat)
   \<Rightarrow> ('x Data \<Rightarrow> Sigma \<Rightarrow> int \<Rightarrow> real \<Rightarrow> real \<Rightarrow> 'm) \<Rightarrow> ('x, 'm, 'a) SklearnModel \<Rightarrow> 'x
   \<Rightarrow> npfloat list \<Rightarrow> (error + 'v chain_extract) \<times> nat" where
  "run_chain samples Model_init model X y =
     (case construct_model Model_init model X y of
        Inl e \<Rightarrow> (Inl e, 0)
      | Inr (m, model') \<Rightarrow>
          samples m (sk_n_samples model') (sk_n_burn model') (sk_thin model')
            (sk_store_in_sample_predictions model') (sk_store_acceptance_trace model'))"

text \<open>
  \<open>f_chains\<close> lists the function \<open>run_chain\<close> once per chain (\<open>range\<close> of a negative
  number is empty); \<open>f_delayed_chains\<close> pairs each with its arguments.
\<close>

definition f_chains :: "'f \<Rightarrow> ('x, 'm, 'a) SklearnModel \<Rightarrow> 'f list" where
  "f_chains run_chain_fn self = replicate (nat (sk_n_chains self)) run_chain_fn"

definition f_delayed_chains ::
  "'f \<Rightarrow> ('x, 'm, 'a) SklearnModel \<Rightarrow> 'x \<Rightarrow> npfloat list
   \<Rightarrow> ('f \<times> ('x, 'm, 'a) SklearnModel \<times> 'x \<times> npfloat list) list" where
  "f_delayed_chains run_chain_fn self X y =
     map (\<lambda>x. (x, self, X, y)) (f_chains run_chain_fn self)"

text \<open>
  \<open>_combine_chains\<close>. \<open>chain_values key extract\<close> is the list
  \<open>[chain[key] for chain in extract]\<close>; a chain without the key raises \<open>KeyError\<close>.
  \<open>np.concatenate\<close> along axis 0 appends the entries in order; it raises \<open>ValueError\<close>
  when it is given no array, or arrays that differ in the number of dimensions or in a
  dimension other than the first.
\<close>

fun chain_values :: "string \<Rightarrow> 'v chain_extract list \<Rightarrow> error + 'v np_array list" where
  "chain_values key [] = Inr []"
| "chain_values key (chain # rest) =
     (case map_of chain key of
        None \<Rightarrow> Inl KeyError
      | Some v \<Rightarrow>
          (case chain_values key rest of Inl e \<Rightarrow> Inl e | Inr vs \<Rightarrow> Inr (v # vs)))"

fun np_concatenate :: "'v np_array list \<Rightarrow> error + 'v np_array" where
  "np_concatenate [] = Inl ValueError"
| "np_concatenate (a # as) =
     (if list_all (\<lambda>b. shape_tail b = shape_tail a) as
      then Inr \<lparr> shape_tail = shape_tail a, items = concat (map items (a # as)) \<rparr>
      else Inl ValueError)"

fun combine_keys ::
  "string list \<Rightarrow> 'v chain_extract list \<Rightarrow> (string \<rightharpoonup> 'v np_array)
   \<Rightarrow> error + (string \<rightharpoonup> 'v np_array)" where
  "combine_keys [] extract combined = Inr combined"
| "combine_keys (key # keys) extract combined =
     (case chain_values key extract of
        Inl e \<Rightarrow> Inl e
      | Inr vs \<Rightarrow>
          (case np_concatenate vs of
             Inl e \<Rightarrow> Inl e
           | Inr v \<Rightarrow> combine_keys keys extract (combined(key \<mapsto> v))))"

definition combine_chains :: "'v chain_extract list \<Rightarrow> error + (string \<rightharpoonup> 'v np_array)" where
  "combine_chains extract =
     (case extract of
        [] \<Rightarrow> Inl IndexError
      | first # _ \<Rightarrow> combine_keys (map fst first) extract Map.empty)"

text \<open>
  \<open>Parallel(n_jobs)(...)\<close> runs every delayed call and returns the results in order;
  when a call raises, the first error is raised in the caller. The count is the
  number of sweeps that all chains executed.
\<close>

fun parallel_collect :: "((error + 'r) \<times> nat) list \<Rightarrow> (error + 'r list) \<times> nat" where
  "parallel_collect [] = (Inr [], 0)"
| "parallel_collect ((r, k) # rest) =
     (let (rs, k') = parallel_collect rest
      in (case r of
            Inl e \<Rightarrow> Inl e
          | Inr x \<Rightarrow> (case rs of Inl e \<Rightarrow> Inl e | Inr xs \<Rightarrow> Inr (x # xs)),
          k + k'))"

fun models_of :: "('m, 'a) entry list \<Rightarrow> 'm list" where
  "models_of [] = []"
| "models_of (ModelSample m # es) = m # models_of es"
| "models_of (_ # es) = models_of es"

fun rows_of :: "('m, 'a) entry list \<Rightarrow> npfloat list list" where
  "rows_of [] = []"
| "rows_of (PredictionRow r # es) = r # rows_of es"
| "rows_of (_ # es) = rows_of es"

fun trace_of :: "('m, 'a) entry list \<Rightarrow> 'a list" where
  "trace_of [] = []"
| "trace_of (AcceptanceEntry a # es) = a # trace_of es"
| "trace_of (_ # es) = trace_of es"

definition fit ::
  "('m \<Rightarrow> int \<Rightarrow> int \<Rightarrow> real \<Rightarrow> bool \<Rightarrow> bool \<Rightarrow> (error + ('m, 'a) entry chain_extract) \<times> nat)
   \<Rightarrow> ('x Data \<Rightarrow> Sigma \<Rightarrow> int \<Rightarrow> real \<Rightarrow> real \<Rightarrow> 'm) \<Rightarrow> ('x, 'm, 'a) SklearnModel \<Rightarrow> 'x
   \<Rightarrow> npfloat list \<Rightarrow> (error + ('x, 'm, 'a) SklearnModel) \<times> nat" where
  "fit samples Model_init self X y =
     (case construct_model Model_init self X y of
        Inl e \<Rightarrow> (Inl e, 0)
      | Inr (m, self1) \<Rightarrow>
          (let (r, k) = parallel_collect
                 (map (\<lambda>(f, model, X', y'). f model X' y')
                    (f_delayed_chains (run_chain samples Model_init) self1 X y))
           in (case r of
                 Inl e \<Rightarrow> Inl e
               | Inr extract \<Rightarrow>
                   (case combine_chains extract of
                      Inl e \<Rightarrow> Inl e
                    | Inr combined \<Rightarrow>
                        (case combined ''model'' of
                           None \<Rightarrow> Inl KeyError
                         | Some ms \<Rightarrow>
                             (case combined ''in_sample_predictions'' of
                                None \<Rightarrow> Inl KeyError
                              | Some ps \<Rightarrow>
                                  (case combined ''acceptance'' of
                                     None \<Rightarrow> Inl KeyError
                                   | Some acc \<Rightarrow>
                                       Inr (self1\<lparr> sk_model_samples := Some (models_of (items ms)),
                                                   sk_prediction_samples := Some (rows_of (items ps)),
                                                   sk_acceptance_trace :=
                                                     Some (trace_of (items acc)) \<rparr>))))),
               k)))"

text \<open>
  The mean over axis 0 of a sequence of rows: one mean per column. The mean of an empty
  sequence is the scalar \<open>nan\<close>.
\<close>

definition mean_axis0 :: "npfloat list list \<Rightarrow> ndarray" where
  "mean_axis0 rows =
     (case rows of
        [] \<Rightarrow> Scalar NaN
      | r # _ \<Rightarrow> Vector (map (\<lambda>j. np_mean (map (\<lambda>row. row ! j) rows)) [0..<length r]))"

definition out_of_sample_predict ::
  "('m \<Rightarrow> 'x \<Rightarrow> npfloat list) \<Rightarrow> ('x, 'm, 'a) SklearnModel \<Rightarrow> 'x \<Rightarrow> error + ndarray" where
  "out_of_sample_predict Model_predict self X =
     (case sk_data self of
        None \<Rightarrow> Inl AttributeError
      | Some d \<Rightarrow>
          (case sk_model_samples self of
             None \<Rightarrow> Inl TypeError
           | Some ms \<Rightarrow> Data_unnormalize_y d (mean_axis0 (map (\<lambda>x. Model_predict x X) ms))))"

definition predict ::
  "('m \<Rightarrow> 'x \<Rightarrow> npfloat list) \<Rightarrow> ('x, 'm, 'a) SklearnModel \<Rightarrow> 'x option \<Rightarrow> error + ndarray" where
  "predict Model_predict self X =
     (if X = None \<and> sk_store_in_sample_predictions self then
        (case sk_data self of
           None \<Rightarrow> Inl AttributeError
         | Some d \<Rightarrow>
             (case sk_prediction_samples self of
                None \<Rightarrow> Inl AttributeError
              | Some ps \<Rightarrow> Data_unnormalize_y d (mean_axis0 ps)))
      else if X = None \<and> \<not> sk_store_in_sample_predictions self then Inl ValueError
      else out_of_sample_predict Model_predict self (the X))"

text \<open>\<open>y - self.predict(X)\<close>: element-wise, the prediction an array or a scalar.\<close>

fun nd_sub :: "npfloat list \<Rightarrow> ndarray \<Rightarrow> error + npfloat list" where
  "nd_sub ys (Scalar p) = Inr (map (\<lambda>v. np_sub v p) ys)"
| "nd_sub ys (Vector ps) = np_broadcast2 np_sub ys ps"

definition residuals ::
  "('m \<Rightarrow> 'x \<Rightarrow> npfloat list) \<Rightarrow> ('x, 'm, 'a) SklearnModel \<Rightarrow> 'x option \<Rightarrow> npfloat list option
   \<Rightarrow> error + npfloat list" where
  "residuals Model_predict self X y =
     (case y of
        None \<Rightarrow>
          (case sk_model self of
             None \<Rightarrow> Inl AttributeError
           | Some _ \<Rightarrow>
               (case sk_data self of
                  None \<Rightarrow> Inl AttributeError
                | Some d \<Rightarrow>
                    (case unnormalized_y (dat_y d) of
                       Inl e \<Rightarrow> Inl e
                     | Inr uy \<Rightarrow>
                         (case predict Model_predict self X of
                            Inl e \<Rightarrow> Inl e
                          | Inr p \<Rightarrow> nd_sub uy p))))
      | Some y' \<Rightarrow>
          (case predict Model_predict self X of
             Inl e \<Rightarrow> Inl e
           | Inr p \<Rightarrow> nd_sub y' p))"

definition l2_error ::
  "('m \<Rightarrow> 'x \<Rightarrow> npfloat list) \<Rightarrow> ('x, 'm, 'a) SklearnModel \<Rightarrow> 'x option \<Rightarrow> npfloat list option
   \<Rightarrow> error + npfloat list" where
  "l2_error Model_predict self X y =
     (case residuals Model_predict self X y of
        Inl e \<Rightarrow> Inl e
      | Inr r \<Rightarrow> Inr (map np_square r))"

definition rmse ::
  "('m \<Rightarrow> 'x \<Rightarrow> npfloat list) \<Rightarrow> ('x, 'm, 'a) SklearnModel \<Rightarrow> 'x option \<Rightarrow> npfloat list option
   \<Rightarrow> error + npfloat" where
  "rmse Model_predict self X y =
     (case l2_error Model_predict self X y of
        Inl e \<Rightarrow> Inl e
      | Inr sq \<Rightarrow> Inr (np_sqrt (np_sum sq)))"

subsection \<open>Concrete objects, used to run the definitions\<close>

definition example_target :: Target where
  "example_target =
     \<lparr> original_y_min = Some (Fin 0), original_y_max = Some (Fin 10),
       tgt_y = [Fin (- 0.5), Fin 0.5], tgt_mask = [False, False],
       tgt_inverse_mask_int = [1, 1], tgt_n_obsv = 2,
       y_sum_cache_up_to_date = False, tgt_summed_y = None \<rparr>"

definition example_predict :: "nat \<Rightarrow> unit \<Rightarrow> npfloat list" where
  "example_predict m X = [Fin (- 0.5), Fin (real m / 4 - 0.5)]"

definition example_sklearn :: "(unit, nat, nat) SklearnModel" where
  "example_sklearn =
     \<lparr> sk_n_trees = 1, sk_n_chains = 3, sk_sigma_a = 0.001, sk_sigma_b = 0.001,
       sk_n_samples = 4, sk_n_burn = 0, sk_thin = 1, sk_p_grow = 0.5, sk_p_prune = 0.5,
       sk_alpha = 0.95, sk_beta = 2, sk_n_jobs = 1,
       sk_store_in_sample_predictions = True, sk_store_acceptance_trace = True,
       sk_schedule =
         \<lparr> sched_tree_sampler =
             \<lparr> tms_proposer = \<lparr> prob_method = [0.5, 0.5] \<rparr>, tms_likihood_ratio = [0.5, 0.5] \<rparr>,
           sched_leaf_sampler = \<lparr> scalar_sampler = 0 \<rparr> \<rparr>,
       sk_sigma = None,
       sk_data = Some \<lparr> dat_X = (), dat_y = example_target \<rparr>,
       sk_model = Some 0,
       sk_prediction_samples = Some [[Fin (- 0.5), Fin 0.5], [Fin (- 0.5), Fin 0]],
       sk_model_samples = Some [1, 2],
       sk_acceptance_trace = Some [] \<rparr>"




section \<open>Facts about the numpy operations\<close>

lemma fold_np_minimum_Fin:
  "fold np_minimum (map Fin xs) (Fin a) = Fin (fold min xs a)"
  by (induction xs arbitrary: a) (auto simp: np_minimum_def min_def)

lemma fold_np_maximum_Fin:
  "fold np_maximum (map Fin xs) (Fin a) = Fin (fold max xs a)"
  by (induction xs arbitrary: a) (auto simp: np_maximum_def max_def)

lemma np_min_Fin:
  "np_min (map Fin (a # as)) = Inr (Fin (Min (set (a # as))))"
proof -
  have "fold min as a = Min (set (a # as))"
    by (rule Min.set_eq_fold [symmetric])
  then show ?thesis by (simp add: fold_np_minimum_Fin)
qed

lemma np_max_Fin:
  "np_max (map Fin (a # as)) = Inr (Fin (Max (set (a # as))))"
proof -
  have "fold max as a = Max (set (a # as))"
    by (rule Max.set_eq_fold [symmetric])
  then show ?thesis by (simp add: fold_np_maximum_Fin)
qed

lemma fold_np_add_Fin:
  "fold (\<lambda>x acc. np_add acc x) (map Fin xs) (Fin a) = Fin (a + sum_list xs)"
  by (induction xs arbitrary: a) (simp_all add: add.assoc)

lemma np_sum_Fin: "np_sum (map Fin xs) = Fin (sum_list xs)"
  by (simp add: np_sum_def fold_np_add_Fin)

lemma np_minimum_self: "np_minimum c c = c"
  by (simp add: np_minimum_def)

lemma np_maximum_self: "np_maximum c c = c"
  by (simp add: np_maximum_def)

lemma fold_np_minimum_replicate: "fold np_minimum (replicate k c) c = c"
  by (induction k) (simp_all add: np_minimum_self del: fold_replicate)

lemma fold_np_maximum_replicate: "fold np_maximum (replicate k c) c = c"
  by (induction k) (simp_all add: np_maximum_self del: fold_replicate)

lemma np_min_replicate: "np_min (replicate (Suc k) c) = Inr c"
  by (simp add: fold_np_minimum_replicate del: fold_replicate)

lemma np_max_replicate: "np_max (replicate (Suc k) c) = Inr c"
  by (simp add: fold_np_maximum_replicate del: fold_replicate)

lemma np_sub_self_div: "np_div (np_sub c c) (np_sub c c) = NaN"
  by (cases c) (simp_all add: np_sub_def)

lemma normalize_y_constant:
  "normalize_y (replicate (Suc k) c) = Inr (replicate (Suc k) NaN)"
  by (simp add: normalize_y_def np_min_replicate np_max_replicate
      np_sub_self_div del: replicate_Suc np_min.simps np_max.simps)

section \<open>Target: normalization of a constant vector\<close>

text \<open>
  Claim C7, as stated: for a constant target vector the degenerate case is guarded and
  normalization never produces non-finite values. The source has no guard: on the
  vector \<open>[3, 3]\<close> the scale \<open>max - min\<close> is zero, every element becomes \<open>0 / 0\<close>, and
  both \<open>normalize_y\<close> and the constructor of a normalizing \<open>Target\<close> yield \<open>nan\<close>.
\<close>

theorem normalize_y_constant_not_guarded:
  "normalize_y [Fin 3, Fin 3] = Inr [NaN, NaN]
   \<and> \<not> is_finite NaN
   \<and> (\<exists>t. Target_init [Fin 3, Fin 3] [False, False] 2 True None = Inr t
          \<and> tgt_y t = [NaN, NaN])"
  by (simp add: normalize_y_def Target_init_def np_minimum_def np_maximum_def np_sub_def)

text \<open>
  Claim C7, amended: for every non-empty constant vector (\<open>k + 1\<close> copies of any value
  \<open>c\<close>) \<open>normalize_y\<close> divides by \<open>max - min = 0\<close> without a guard, so every element
  of its result is \<open>nan\<close>; a normalizing \<open>Target\<close> built from the vector stores these
  \<open>nan\<close> values and records \<open>c\<close> as both minimum and maximum.
\<close>

theorem normalize_y_constant_is_nan:
  "normalize_y (replicate (Suc k) c) = Inr (replicate (Suc k) NaN)
   \<and> (\<exists>t. Target_init (replicate (Suc k) c) msk n True y_sum = Inr t
          \<and> tgt_y t = replicate (Suc k) NaN
          \<and> original_y_min t = Some c \<and> original_y_max t = Some c)"
proof -
  have n: "normalize_y (replicate (Suc k) c) = Inr (replicate (Suc k) NaN)"
    by (rule normalize_y_constant)
  have mn: "np_min (replicate (Suc k) c) = Inr c"
    by (rule np_min_replicate)
  have mx: "np_max (replicate (Suc k) c) = Inr c"
    by (rule np_max_replicate)
  show ?thesis
    by (simp add: Target_init_def n mn mx del: replicate_Suc np_min.simps np_max.simps)
qed

section \<open>Target: un-normalization without stored bounds\<close>

text \<open>
  Claim C10: a \<open>Target\<close> constructed with \<open>normalize\<close> false is always constructed, and
  its attributes \<open>original_y_min\<close> and \<open>original_y_max\<close> are never set: not by the
  constructor, nor by \<open>update_y\<close> or \<open>summed_y\<close>. Every call of \<open>unnormalize_y\<close>,
  \<open>unnormalized_y\<close> or \<open>normalizing_scale\<close> on it fails with \<open>AttributeError\<close>; none
  acts as the identity.
\<close>

theorem unnormalize_without_normalize_fails:
  "\<exists>t. Target_init y msk n False y_sum = Inr t
     \<and> original_y_min t = None \<and> original_y_max t = None
     \<and> unnormalize_y t v = Inl AttributeError
     \<and> unnormalized_y t = Inl AttributeError
     \<and> normalizing_scale t = Inl AttributeError
     \<and> original_y_min (update_y t y') = None \<and> original_y_max (update_y t y') = None
     \<and> unnormalize_y (update_y t y') v = Inl AttributeError
     \<and> (case summed_y t of Inl e \<Rightarrow> True
         | Inr (s, t') \<Rightarrow> original_y_min t' = None \<and> original_y_max t' = None
              \<and> unnormalize_y t' v = Inl AttributeError)"
  by (simp add: Target_init_def unnormalize_y_def unnormalized_y_def normalizing_scale_def
      update_y_def summed_y_def Let_def split: sum.splits)

section \<open>Target: the normalization round trip\<close>

lemma Min_neq_Max:
  fixes ys :: "real list"
  assumes "a \<in> set ys" "b \<in> set ys" "a \<noteq> b"
  shows "Min (set ys) \<noteq> Max (set ys)"
proof
  assume eq: "Min (set ys) = Max (set ys)"
  have "Min (set ys) \<le> a" "a \<le> Max (set ys)" "Min (set ys) \<le> b" "b \<le> Max (set ys)"
    using assms by simp_all
  with eq have "a = b" by linarith
  with assms show False by simp
qed

lemma unnormalize_y_Fin:
  assumes "original_y_min t = Some (Fin lo)" "original_y_max t = Some (Fin hi)"
  shows "unnormalize_y t (map Fin vs) = Inr (map (\<lambda>v. Fin (lo + (v + 0.5) * (hi - lo))) vs)"
  using assms by (simp add: unnormalize_y_def np_sub_def o_def)

subsection \<open>The rounding of float64\<close>

lemma binade_up_ge: "e \<le> binade_up k e a"
proof (induction k arbitrary: e)
  case 0 show ?case by simp
next
  case (Suc k)
  show ?case using Suc [of "e + 1"] by simp
qed

lemma binade_up_le: "binade_up k e a \<le> e + int k"
proof (induction k arbitrary: e)
  case 0 show ?case by simp
next
  case (Suc k)
  show ?case using Suc [of "e + 1"] by simp
qed

lemma binade_up_below: "2 powi e \<le> a \<Longrightarrow> 2 powi (binade_up k e a) \<le> a"
  by (induction k arbitrary: e) auto

lemma binade_up_stay: "a < 2 powi (e + 1) \<Longrightarrow> binade_up k e a = e"
  by (cases k) auto

lemma round_half_even_err: "\<bar>real_of_int (round_half_even z) - z\<bar> \<le> 1 / 2"
proof -
  have "real_of_int \<lfloor>z\<rfloor> \<le> z" "z < real_of_int \<lfloor>z\<rfloor> + 1" by linarith+
  then show ?thesis
    by (auto simp: round_half_even_def Let_def abs_le_iff)
qed

lemma round_half_even_of_int: "round_half_even (real_of_int m) = m"
  by (simp add: round_half_even_def)


lemma binade64_ge: "- 1022 \<le> binade64 x"
  unfolding binade64_def by (rule binade_up_ge)

lemma binade64_le: "binade64 x \<le> 1023"
  using binade_up_le [of 2045 "- 1022" "\<bar>x\<bar>"] by (simp add: binade64_def)

lemma binade64_normal: "2 powi (- 1022) \<le> \<bar>x\<bar> \<Longrightarrow> 2 powi (binade64 x) \<le> \<bar>x\<bar>"
  unfolding binade64_def by (rule binade_up_below)

lemma binade64_subnormal:
  assumes "\<bar>x\<bar> < 2 powi (- 1022)"
  shows "binade64 x = - 1022"
proof -
  have "(2 :: real) powi (- 1022) \<le> 2 powi (- 1022 + 1)"
    by (rule power_int_increasing) simp_all
  then have "\<bar>x\<bar> < 2 powi (- 1022 + 1)" using assms by linarith
  then show ?thesis unfolding binade64_def by (rule binade_up_stay)
qed

lemma rnd64_scaled:
  "rnd64 x - x =
     (real_of_int (round_half_even (x * 2 powi (52 - binade64 x))) - x * 2 powi (52 - binade64 x))
       * 2 powi (binade64 x - 52)"
proof -
  have "(2 :: real) powi ((52 - binade64 x) + (binade64 x - 52))
      = 2 powi (52 - binade64 x) * 2 powi (binade64 x - 52)"
    by (rule power_int_add) simp
  then have "(2 :: real) powi (52 - binade64 x) * 2 powi (binade64 x - 52) = 1"
    by simp
  then have "x * 2 powi (52 - binade64 x) * 2 powi (binade64 x - 52) = x"
    by (simp add: mult.assoc)
  then show ?thesis by (simp add: rnd64_def Let_def algebra_simps)
qed

lemma rnd64_error: "\<bar>rnd64 x - x\<bar> \<le> 1 / 2 ^ 53 * \<bar>x\<bar> + 1 / 2 ^ 1075"
proof -
  define e where "e = binade64 x"
  have s: "0 < (2 :: real) powi (e - 52)" by simp
  have "\<bar>rnd64 x - x\<bar> =
      \<bar>real_of_int (round_half_even (x * 2 powi (52 - e))) - x * 2 powi (52 - e)\<bar> * 2 powi (e - 52)"
    unfolding e_def by (simp only: rnd64_scaled abs_mult) simp
  also have "\<dots> \<le> 1 / 2 * 2 powi (e - 52)"
    using round_half_even_err [of "x * 2 powi (52 - e)"] s by (intro mult_right_mono) simp_all
  also have "\<dots> = 2 powi e / 2 ^ 53"
    by (simp add: power_int_diff)
  finally have bound: "\<bar>rnd64 x - x\<bar> \<le> 2 powi e / 2 ^ 53" .
  show ?thesis
  proof (cases "2 powi (- 1022) \<le> \<bar>x\<bar>")
    case True
    then have "2 powi e \<le> \<bar>x\<bar>" unfolding e_def by (rule binade64_normal)
    then have "2 powi e / 2 ^ 53 \<le> \<bar>x\<bar> / 2 ^ 53" by (simp add: divide_right_mono)
    then show ?thesis using bound by simp
  next
    case False
    then have "e = - 1022" unfolding e_def by (intro binade64_subnormal) simp
    then have "(2 :: real) powi e = 1 / 2 ^ 1022"
      by (simp add: power_int_minus_divide)
    then have "(2 :: real) powi e / 2 ^ 53 = 1 / 2 ^ 1075"
      by simp
    moreover have "0 \<le> 1 / 2 ^ 53 * \<bar>x\<bar>" by simp
    ultimately show ?thesis using bound by linarith
  qed
qed

lemma rnd64_exact:
  assumes "binade64 x = e" "x * 2 powi (52 - e) = real_of_int m"
  shows "rnd64 x = x"
  using rnd64_scaled [of x] by (simp add: assms round_half_even_of_int)

lemma rnd64_zero: "rnd64 0 = 0"
  by (rule rnd64_exact [of _ "binade64 0" 0]) simp_all

lemma binade_up_find:
  "e \<le> e' \<Longrightarrow> e' \<le> e + int k \<Longrightarrow> 2 powi e' \<le> a \<Longrightarrow> a < 2 powi (e' + 1)
     \<Longrightarrow> binade_up k e a = e'"
proof (induction k arbitrary: e)
  case 0 then show ?case by simp
next
  case (Suc k)
  show ?case
  proof (cases "2 powi (e + 1) \<le> a")
    case True
    then have "(2 :: real) powi (e + 1) < 2 powi (e' + 1)" using Suc.prems(4) by linarith
    then have "e + 1 < e' + 1"
      using power_int_increasing [of "e' + 1" "e + 1" "2 :: real"] by (cases "e + 1 < e' + 1") auto
    then have "binade_up k (e + 1) a = e'"
      using Suc.prems by (intro Suc.IH) simp_all
    then show ?thesis using True by simp
  next
    case False
    then have "(2 :: real) powi e' < 2 powi (e + 1)" using Suc.prems(3) by linarith
    then have "e' < e + 1"
      using power_int_increasing [of "e + 1" e' "2 :: real"] by (cases "e' < e + 1") auto
    then show ?thesis using False Suc.prems(1) by simp
  qed
qed

lemma binade_up_saturate: "2 powi (e + int k) \<le> a \<Longrightarrow> binade_up k e a = e + int k"
proof (induction k arbitrary: e)
  case 0 show ?case by simp
next
  case (Suc k)
  have "(2 :: real) powi (e + 1) \<le> 2 powi (e + int (Suc k))"
    by (rule power_int_increasing) simp_all
  then have "2 powi (e + 1) \<le> a" using Suc.prems by linarith
  moreover have "binade_up k (e + 1) a = e + 1 + int k"
    using Suc.prems by (intro Suc.IH) (simp add: add.assoc)
  ultimately show ?case by simp
qed

lemma binade64_half: "binade64 (- (1 / 2)) = - 1"
  unfolding binade64_def
  by (rule binade_up_find) (simp_all add: power_int_minus_divide)

lemma rnd64_half: "rnd64 (- (1 / 2)) = - (1 / 2)"
  by (rule rnd64_exact [OF binade64_half, of "- (2 ^ 52)"]) (simp add: power_int_minus_divide)

lemma binade64_huge: "binade64 (2 ^ 1024) = 1023"
proof -
  have "binade_up 2045 (- 1022) (2 ^ 1024) = - 1022 + int 2045"
    by (rule binade_up_saturate) simp
  then show ?thesis by (simp add: binade64_def)
qed

lemma rnd64_huge: "rnd64 (2 ^ 1024) = 2 ^ 1024"
  by (rule rnd64_exact [OF binade64_huge, of "2 ^ 53"]) (simp add: power_int_minus_divide)


lemma float64_rounding: "rounding_model float64 (1 / 2 ^ 53) (1 / 2 ^ 1075)"
  using rnd64_error by (simp add: rounding_model_def float64_def)

lemma rnd64_dyadic:
  assumes "2 powi e \<le> \<bar>x\<bar>" "\<bar>x\<bar> < 2 powi (e + 1)" "- 1022 \<le> e" "e \<le> 1023"
    and "x * 2 powi (52 - e) = real_of_int m"
  shows "rnd64 x = x"
proof -
  have "binade_up 2045 (- 1022) \<bar>x\<bar> = e"
    using assms(3,4,1,2) by (intro binade_up_find) simp_all
  then have "binade64 x = e" by (simp add: binade64_def)
  then show ?thesis using assms(5) by (rule rnd64_exact)
qed

lemma fl_round_float64_exact:
  assumes "rnd64 x = x" "\<bar>x\<bar> \<le> 2 ^ 1024 - 2 ^ 971"
  shows "fl_round float64 (Fin x) = Fin x"
proof -
  have "fl_rnd float64 x = x" using assms(1) by (simp add: float64_def)
  moreover have "\<not> fl_max float64 < x" "\<not> x < - fl_max float64"
    using assms(2) unfolding float64_def float_format.select_convs by linarith+
  ultimately show ?thesis by (simp only: fl_round.simps if_False)
qed

lemma float64_zero: "fl_round float64 (Fin 0) = Fin 0"
  by (rule fl_round_float64_exact [OF rnd64_zero]) simp

lemma float64_minus_half: "fl_round float64 (Fin (- (1 / 2))) = Fin (- (1 / 2))"
  by (rule fl_round_float64_exact [OF rnd64_half]) simp

lemma float64_half: "fl_round float64 (Fin (1 / 2)) = Fin (1 / 2)"
  by (rule fl_round_float64_exact [OF rnd64_dyadic [of "- 1" _ "2 ^ 52"]])
    (simp_all add: power_int_minus_divide)

lemma float64_one: "fl_round float64 (Fin 1) = Fin 1"
  by (rule fl_round_float64_exact [OF rnd64_dyadic [of 0 _ "2 ^ 52"]]) simp_all

lemma float64_two: "fl_round float64 (Fin 2) = Fin 2"
  by (rule fl_round_float64_exact [OF rnd64_dyadic [of 1 _ "2 ^ 52"]]) simp_all

lemma float64_three: "fl_round float64 (Fin 3) = Fin 3"
  by (rule fl_round_float64_exact [OF rnd64_dyadic [of 1 _ "3 * 2 ^ 51"]]) simp_all

lemma float64_overflow: "fl_round float64 (Fin (2 ^ 1024)) = PInf"
proof -
  have "fl_rnd float64 (2 ^ 1024) = 2 ^ 1024"
    by (simp only: float64_def float_format.select_convs rnd64_huge)
  moreover have "fl_max float64 < 2 ^ 1024"
    by (simp add: float64_def)
  ultimately show ?thesis by (simp only: fl_round.simps if_True)
qed

lemma example_normalized:
  "normalize_y_fl float64 (map Fin [1, 2, 3]) = Inr [Fin (- (1 / 2)), Fin 0, Fin (1 / 2)]"
  by (simp add: normalize_y_fl_def fl_add_def fl_sub_def fl_div_def np_sub_def
      np_minimum_def np_maximum_def
      float64_zero float64_minus_half float64_half float64_one float64_two float64_three
      del: fl_round.simps)

lemma example_roundtrip:
  "\<exists>t. Target_init_fl float64 (map Fin [1, 2, 3]) [False, False, False] 3 True None = Inr t
     \<and> tgt_y t = [Fin (- (1 / 2)), Fin 0, Fin (1 / 2)]
     \<and> unnormalize_y_fl float64 t (tgt_y t) = Inr [Fin 1, Fin 2, Fin 3]"
  by (simp add: Target_init_fl_def normalize_y_fl_def unnormalize_y_fl_def
      fl_add_def fl_sub_def fl_div_def fl_mul_def np_sub_def
      np_minimum_def np_maximum_def
      float64_zero float64_minus_half float64_half float64_one float64_two float64_three
      del: fl_round.simps)

subsection \<open>The rounding error of the round trip\<close>

lemma roundtrip_real:
  fixes r :: "real \<Rightarrow> real"
  assumes R: "\<And>x. \<bar>r x - x\<bar> \<le> u * \<bar>x\<bar> + eta"
    and u0: "0 \<le> u" and u16: "u \<le> 1 / 16" and e0: "0 \<le> eta" and e16: "eta \<le> 1 / 16"
    and eD: "16 * eta \<le> hi - lo" and lohi: "lo < hi" and ylo: "lo \<le> y" and yhi: "y \<le> hi"
  shows "0 < r (hi - lo)"
    and "\<bar>r (y - lo)\<bar> \<le> 9 / 8 * (hi - lo)"
    and "\<bar>r (hi - lo)\<bar> \<le> 9 / 8 * (hi - lo)"
    and "\<bar>r (r (y - lo) / r (hi - lo))\<bar> \<le> 10 / 7"
    and "\<bar>nrm_real r lo hi y\<bar> \<le> 3"
    and "\<bar>r (nrm_real r lo hi y - (- 0.5))\<bar> \<le> 2"
    and "\<bar>r (r (nrm_real r lo hi y - (- 0.5)) * r (hi - lo))\<bar> \<le> 3 * (hi - lo) + 1"
    and "\<bar>unn_real r lo hi (nrm_real r lo hi y)\<bar> \<le> 4 * (\<bar>lo\<bar> + \<bar>hi\<bar>) + 3"
    and "\<bar>unn_real r lo hi (nrm_real r lo hi y) - y\<bar>
          \<le> (16 * u + 4 * eta) * (1 + \<bar>lo\<bar> + \<bar>hi\<bar>)"
proof -
  define D where "D = hi - lo"
  define A where "A = y - lo"
  define a where "a = r A"
  define d where "d = r D"
  define q where "q = r (a / d)"
  define v where "v = r (- 0.5 + q)"
  define w where "w = r (v - (- 0.5))"
  define p where "p = r (w * d)"
  define res where "res = r (lo + p)"
  define M where "M = \<bar>lo\<bar> + \<bar>hi\<bar>"
  define uD where "uD = u * D"
  define eD' where "eD' = eta * D"
  define uL where "uL = u * \<bar>lo\<bar>"
  define uM where "uM = u * M"
  define eM where "eM = eta * M"
  have v_eq: "v = nrm_real r lo hi y"
    by (simp add: v_def q_def a_def d_def A_def D_def nrm_real_def)
  have res_eq: "res = unn_real r lo hi (nrm_real r lo hi y)"
    by (simp add: res_def p_def w_def d_def D_def unn_real_def v_eq [symmetric])
  have D0: "0 < D" using lohi by (simp add: D_def)
  have A0: "0 \<le> A" and AD: "A \<le> D" using ylo yhi by (simp_all add: A_def D_def)
  have DM: "D \<le> M" by (simp add: D_def M_def) 
  have LM: "\<bar>lo\<bar> \<le> M" by (simp add: M_def)
  have M0: "0 \<le> M" by (simp add: M_def)
  have uD0: "0 \<le> uD" using u0 D0 by (simp add: uD_def)
  have uD16: "uD \<le> D / 16"
    using mult_right_mono [OF u16, of D] D0 by (simp add: uD_def)
  have eD16: "eta \<le> D / 16" using eD by (simp add: D_def)
  have uA: "u * A \<le> uD"
    unfolding uD_def using AD u0 by (rule mult_left_mono)
  have uDM: "uD \<le> uM" unfolding uD_def uM_def using DM u0 by (rule mult_left_mono)
  have uLM: "uL \<le> uM" unfolding uL_def uM_def using LM u0 by (rule mult_left_mono)
  have eDM: "eD' \<le> eM" unfolding eD'_def eM_def using DM e0 by (rule mult_left_mono)
  have eD0: "0 \<le> eD'" using e0 D0 by (simp add: eD'_def)
  have uM0: "0 \<le> uM" using u0 M0 by (simp add: uM_def)
  have eM0: "0 \<le> eM" using e0 M0 by (simp add: eM_def)
  \<comment> \<open>the difference y - min\<close>
  have "\<bar>a - A\<bar> \<le> u * \<bar>A\<bar> + eta" unfolding a_def by (rule R)
  then have ea: "\<bar>a - A\<bar> \<le> uD + eta" using uA A0 by simp
  have a_bd: "\<bar>a\<bar> \<le> 9 / 8 * D" using ea uD16 eD16 AD A0 by linarith
  \<comment> \<open>the range max - min\<close>
  have "\<bar>d - D\<bar> \<le> u * \<bar>D\<bar> + eta" unfolding d_def by (rule R)
  then have ed: "\<bar>d - D\<bar> \<le> uD + eta" using D0 by (simp add: uD_def)
  have d_lo: "7 / 8 * D \<le> d" and d_hi: "d \<le> 9 / 8 * D"
    using ed uD16 eD16 by linarith+
  have d0: "0 < d" using d_lo D0 by linarith
  \<comment> \<open>the quotient\<close>
  have "\<bar>a\<bar> \<le> 9 / 7 * d" using a_bd d_lo by linarith
  then have "\<bar>a\<bar> / d \<le> 9 / 7"
    using d0 by (simp only: pos_divide_le_eq)
  moreover have "\<bar>a / d\<bar> = \<bar>a\<bar> / d"
    using d0 by (simp only: abs_divide abs_of_pos)
  ultimately have ad: "\<bar>a / d\<bar> \<le> 9 / 7" by (simp only:)
  have "\<bar>q - a / d\<bar> \<le> u * \<bar>a / d\<bar> + eta" unfolding q_def by (rule R)
  moreover have "u * \<bar>a / d\<bar> \<le> u * (9 / 7)" using ad u0 by (rule mult_left_mono)
  ultimately have eq: "\<bar>q - a / d\<bar> \<le> 9 / 7 * u + eta" by linarith
  have q_bd: "\<bar>q\<bar> \<le> 10 / 7" using eq ad u16 e16 by linarith
  \<comment> \<open>the normalized value\<close>
  have h4: "\<bar>- 0.5 + q\<bar> \<le> 2" using q_bd by linarith
  have "\<bar>v - (- 0.5 + q)\<bar> \<le> u * \<bar>- 0.5 + q\<bar> + eta" unfolding v_def by (rule R)
  moreover have "u * \<bar>- 0.5 + q\<bar> \<le> u * 2" using h4 u0 by (rule mult_left_mono)
  ultimately have ev: "\<bar>v - (- 0.5 + q)\<bar> \<le> 2 * u + eta" by linarith
  have v_bd: "\<bar>v\<bar> \<le> 3" using ev q_bd u16 e16 by linarith
  have h5: "\<bar>v - (- 0.5)\<bar> \<le> 2" using ev q_bd u16 e16 by linarith
  \<comment> \<open>back: the distance from the minimum\<close>
  have "\<bar>w - (v - (- 0.5))\<bar> \<le> u * \<bar>v - (- 0.5)\<bar> + eta" unfolding w_def by (rule R)
  moreover have "u * \<bar>v - (- 0.5)\<bar> \<le> u * 2" using h5 u0 by (rule mult_left_mono)
  ultimately have ew: "\<bar>w - (v - (- 0.5))\<bar> \<le> 2 * u + eta" by linarith
  have w_bd: "\<bar>w\<bar> \<le> 2" using ew ev q_bd u16 e16 by linarith
  have "\<bar>w\<bar> * d \<le> 2 * (9 / 8 * D)"
    using w_bd d_hi d0 by (intro mult_mono) simp_all
  then have wd: "\<bar>w * d\<bar> \<le> 9 / 4 * D" using d0 by (simp add: abs_mult)
  have "\<bar>p - w * d\<bar> \<le> u * \<bar>w * d\<bar> + eta" unfolding p_def by (rule R)
  moreover have "u * \<bar>w * d\<bar> \<le> u * (9 / 4 * D)" using wd u0 by (rule mult_left_mono)
  ultimately have ep: "\<bar>p - w * d\<bar> \<le> 9 / 4 * uD + eta" by (simp add: uD_def)
  have p_bd': "\<bar>p\<bar> \<le> 153 / 64 * D + 1 / 16" using ep wd uD16 e16 by linarith
  have p_bd: "\<bar>p\<bar> \<le> 3 * D + 1" using p_bd' D0 by linarith
  have lp: "\<bar>lo + p\<bar> \<le> \<bar>lo\<bar> + 153 / 64 * D + 1 / 16" using p_bd' by linarith
  have "\<bar>res - (lo + p)\<bar> \<le> u * \<bar>lo + p\<bar> + eta" unfolding res_def by (rule R)
  moreover have "u * \<bar>lo + p\<bar> \<le> u * (\<bar>lo\<bar> + 153 / 64 * D + 1 / 16)"
    using lp u0 by (rule mult_left_mono)
  ultimately have er: "\<bar>res - (lo + p)\<bar> \<le> uL + 153 / 64 * uD + u / 16 + eta"
    by (simp add: uL_def uD_def algebra_simps)
  have uL16: "uL \<le> \<bar>lo\<bar> / 16"
    using mult_right_mono [OF u16, of "\<bar>lo\<bar>"] by (simp add: uL_def)
  have res_bd: "\<bar>res\<bar> \<le> 4 * M + 3"
    using er lp uL16 uD16 u16 e16 DM LM D0 by linarith
  \<comment> \<open>the error of the round trip\<close>
  have "\<bar>w - a / d\<bar> \<le> \<bar>w - (v - (- 0.5))\<bar> + \<bar>v - (- 0.5 + q)\<bar> + \<bar>q - a / d\<bar>"
    by linarith
  then have c: "\<bar>w - a / d\<bar> \<le> 37 / 7 * u + 3 * eta" using ew ev eq by linarith
  have c0: "0 \<le> 37 / 7 * u + 3 * eta" using u0 e0 by simp
  have "w * d - a = (w - a / d) * d" using d0 by (simp add: field_simps)
  then have "\<bar>w * d - a\<bar> = \<bar>w - a / d\<bar> * d" using d0 by (simp add: abs_mult)
  also have "\<dots> \<le> (37 / 7 * u + 3 * eta) * (9 / 8 * D)"
    using c d_hi d0 c0 by (intro mult_mono) simp_all
  also have "\<dots> = 333 / 56 * uD + 27 / 8 * eD'"
    by (simp add: uD_def eD'_def algebra_simps)
  finally have ewd: "\<bar>w * d - a\<bar> \<le> 333 / 56 * uD + 27 / 8 * eD'" .
  have "res - y = (res - (lo + p)) + (p - w * d) + (w * d - a) + (a - A)"
    by (simp add: A_def)
  then have "\<bar>res - y\<bar> \<le> \<bar>res - (lo + p)\<bar> + \<bar>p - w * d\<bar> + \<bar>w * d - a\<bar> + \<bar>a - A\<bar>"
    by linarith
  then have "\<bar>res - y\<bar> \<le> 16 * u + 16 * uM + 4 * eta + 4 * eM"
    using er ep ewd ea uDM uLM eDM uD0 eD0 u0 e0 uM0 eM0 by linarith
  also have "\<dots> = (16 * u + 4 * eta) * (1 + \<bar>lo\<bar> + \<bar>hi\<bar>)"
    by (simp add: uM_def eM_def M_def algebra_simps)
  finally have err: "\<bar>res - y\<bar> \<le> (16 * u + 4 * eta) * (1 + \<bar>lo\<bar> + \<bar>hi\<bar>)" .
  show "0 < r (hi - lo)" using d0 by (simp add: d_def D_def)
  show "\<bar>r (y - lo)\<bar> \<le> 9 / 8 * (hi - lo)" using a_bd by (simp add: a_def A_def D_def)
  show "\<bar>r (hi - lo)\<bar> \<le> 9 / 8 * (hi - lo)" using d_hi d0 by (simp add: d_def D_def)
  show "\<bar>r (r (y - lo) / r (hi - lo))\<bar> \<le> 10 / 7"
    using q_bd by (simp add: q_def a_def d_def A_def D_def)
  show "\<bar>nrm_real r lo hi y\<bar> \<le> 3" using v_bd by (simp add: v_eq)
  show "\<bar>r (nrm_real r lo hi y - (- 0.5))\<bar> \<le> 2" using w_bd by (simp add: w_def v_eq)
  show "\<bar>r (r (nrm_real r lo hi y - (- 0.5)) * r (hi - lo))\<bar> \<le> 3 * (hi - lo) + 1"
    using p_bd by (simp add: p_def w_def d_def D_def v_eq)
  show "\<bar>unn_real r lo hi (nrm_real r lo hi y)\<bar> \<le> 4 * (\<bar>lo\<bar> + \<bar>hi\<bar>) + 3"
    using res_bd by (simp add: res_eq M_def)
  show "\<bar>unn_real r lo hi (nrm_real r lo hi y) - y\<bar>
          \<le> (16 * u + 4 * eta) * (1 + \<bar>lo\<bar> + \<bar>hi\<bar>)"
    using err by (simp add: res_eq)
qed

lemma fl_round_in_range:
  "\<bar>fl_rnd F x\<bar> \<le> fl_max F \<Longrightarrow> fl_round F (Fin x) = Fin (fl_rnd F x)"
  by auto

lemma fl_round_eq_Fin:
  "fl_round F v = Fin z \<Longrightarrow> \<exists>x. v = Fin x \<and> z = fl_rnd F x"
  by (cases v) (auto split: if_splits)

lemma np_add_eq_Fin: "np_add a b = Fin s \<Longrightarrow> \<exists>x y. a = Fin x \<and> b = Fin y \<and> s = x + y"
  by (cases a; cases b) auto

lemma np_sub_eq_Fin: "np_sub a b = Fin s \<Longrightarrow> \<exists>x y. a = Fin x \<and> b = Fin y \<and> s = x - y"
  by (cases a; cases b) (auto simp: np_sub_def)

lemma np_mul_eq_Fin: "np_mul a b = Fin s \<Longrightarrow> \<exists>x y. a = Fin x \<and> b = Fin y \<and> s = x * y"
  by (cases a; cases b) (auto split: if_splits)

lemma np_div_eq_Fin:
  "np_div a (Fin d) = Fin s \<Longrightarrow> d \<noteq> 0 \<Longrightarrow> \<exists>x. a = Fin x \<and> s = x / d"
  by (cases a) (auto split: if_splits)

lemma elt_roundtrip_finite_value:
  assumes rm: "rounding_model F u eta" and u16: "u \<le> 1 / 16" and e16: "eta \<le> 1 / 16"
    and eD: "16 * eta \<le> hi - lo" and lohi: "lo < hi" and ylo: "lo \<le> y" and yhi: "y \<le> hi"
    and fin: "elt_unnormalize F (Fin lo) (Fin hi) (elt_normalize F (Fin lo) (Fin hi) (Fin y)) = Fin z"
  shows "z = unn_real (fl_rnd F) lo hi (nrm_real (fl_rnd F) lo hi y)"
proof -
  let ?r = "fl_rnd F"
  have R: "\<And>x. \<bar>?r x - x\<bar> \<le> u * \<bar>x\<bar> + eta" and u0: "0 \<le> u" and e0: "0 \<le> eta"
    using rm by (simp_all add: rounding_model_def)
  have d0: "0 < ?r (hi - lo)"
    by (rule roundtrip_real(1) [OF R u0 u16 e0 e16 eD lohi ylo yhi])
  define V where "V = elt_normalize F (Fin lo) (Fin hi) (Fin y)"
  from fin obtain s1 where "np_add (Fin lo) (fl_mul F (fl_sub F V (Fin (- 0.5))) (fl_sub F (Fin hi) (Fin lo))) = Fin s1"
    and z: "z = ?r s1"
    unfolding elt_unnormalize_def fl_add_def V_def [symmetric] by (auto dest: fl_round_eq_Fin)
  then obtain p where P: "fl_mul F (fl_sub F V (Fin (- 0.5))) (fl_sub F (Fin hi) (Fin lo)) = Fin p"
    and s1: "s1 = lo + p"
    by (auto dest: np_add_eq_Fin)
  from P obtain s2 where "np_mul (fl_sub F V (Fin (- 0.5))) (fl_sub F (Fin hi) (Fin lo)) = Fin s2"
    and p: "p = ?r s2"
    unfolding fl_mul_def by (auto dest: fl_round_eq_Fin)
  then obtain w d where W: "fl_sub F V (Fin (- 0.5)) = Fin w"
    and Dd: "fl_sub F (Fin hi) (Fin lo) = Fin d" and s2: "s2 = w * d"
    by (auto dest: np_mul_eq_Fin)
  have d: "d = ?r (hi - lo)"
    using Dd unfolding fl_sub_def by (auto simp: np_sub_def split: if_splits)
  from W obtain s3 where "np_sub V (Fin (- 0.5)) = Fin s3" and w: "w = ?r s3"
    unfolding fl_sub_def by (auto dest: fl_round_eq_Fin)
  then obtain v where V: "V = Fin v" and s3: "s3 = v - (- 0.5)"
    by (auto dest: np_sub_eq_Fin)
  from V obtain s4 where "np_add (Fin (- 0.5)) (fl_div F (fl_sub F (Fin y) (Fin lo)) (Fin d)) = Fin s4"
    and v: "v = ?r s4"
    unfolding V_def elt_normalize_def fl_add_def Dd by (auto dest: fl_round_eq_Fin)
  then obtain q where Q: "fl_div F (fl_sub F (Fin y) (Fin lo)) (Fin d) = Fin q"
    and s4: "s4 = - 0.5 + q"
    by (auto dest: np_add_eq_Fin)
  from Q obtain s5 where s5': "np_div (fl_sub F (Fin y) (Fin lo)) (Fin d) = Fin s5"
    and q: "q = ?r s5"
    unfolding fl_div_def by (auto dest: fl_round_eq_Fin)
  have dne: "d \<noteq> 0" using d0 d by simp
  from np_div_eq_Fin [OF s5' dne] obtain a where A: "fl_sub F (Fin y) (Fin lo) = Fin a"
    and s5: "s5 = a / d"
    by blast
  have a: "a = ?r (y - lo)"
    using A unfolding fl_sub_def by (auto simp: np_sub_def split: if_splits)
  show ?thesis
    unfolding z s1 p s2 w s3 v s4 q s5 a d
    by (simp add: unn_real_def nrm_real_def)
qed

lemma elt_roundtrip_no_overflow:
  assumes rm: "rounding_model F u eta" and u16: "u \<le> 1 / 16" and e16: "eta \<le> 1 / 16"
    and eD: "16 * eta \<le> hi - lo" and lohi: "lo < hi" and ylo: "lo \<le> y" and yhi: "y \<le> hi"
    and big: "4 * (\<bar>lo\<bar> + \<bar>hi\<bar>) + 3 \<le> fl_max F"
  shows "elt_unnormalize F (Fin lo) (Fin hi) (elt_normalize F (Fin lo) (Fin hi) (Fin y))
      = Fin (unn_real (fl_rnd F) lo hi (nrm_real (fl_rnd F) lo hi y))"
proof -
  let ?r = "fl_rnd F"
  have R: "\<And>x. \<bar>?r x - x\<bar> \<le> u * \<bar>x\<bar> + eta" and u0: "0 \<le> u" and e0: "0 \<le> eta"
    using rm by (simp_all add: rounding_model_def)
  note b = roundtrip_real [OF R u0 u16 e0 e16 eD lohi ylo yhi]
  have DM: "hi - lo \<le> \<bar>lo\<bar> + \<bar>hi\<bar>" by linarith
  have M0: "0 \<le> \<bar>lo\<bar> + \<bar>hi\<bar>" by simp
  have a: "fl_sub F (Fin y) (Fin lo) = Fin (?r (y - lo))"
    unfolding fl_sub_def np_sub_def np_neg.simps np_add.simps
    using fl_round_in_range [of F "y - lo"] b(2) DM big by (simp del: fl_round.simps)
  have d: "fl_sub F (Fin hi) (Fin lo) = Fin (?r (hi - lo))"
    unfolding fl_sub_def np_sub_def np_neg.simps np_add.simps
    using fl_round_in_range [of F "hi - lo"] b(3) DM big by (simp del: fl_round.simps)
  have dne: "?r (hi - lo) \<noteq> 0" using b(1) by simp
  have q: "fl_div F (Fin (?r (y - lo))) (Fin (?r (hi - lo))) = Fin (?r (?r (y - lo) / ?r (hi - lo)))"
    unfolding fl_div_def
    using fl_round_in_range [of F "?r (y - lo) / ?r (hi - lo)"] b(4) M0 big dne
    by (simp del: fl_round.simps)
  have v: "elt_normalize F (Fin lo) (Fin hi) (Fin y) = Fin (nrm_real ?r lo hi y)"
    unfolding elt_normalize_def a d q fl_add_def np_add.simps
    using fl_round_in_range [of F "- 0.5 + ?r (?r (y - lo) / ?r (hi - lo))"] b(5) M0 big
    by (simp add: nrm_real_def del: fl_round.simps)
  have w: "fl_sub F (Fin (nrm_real ?r lo hi y)) (Fin (- 0.5)) = Fin (?r (nrm_real ?r lo hi y - (- 0.5)))"
    unfolding fl_sub_def np_sub_def np_neg.simps np_add.simps
    using fl_round_in_range [of F "nrm_real ?r lo hi y - (- 0.5)"] b(6) M0 big
    by (simp del: fl_round.simps)
  have p: "fl_mul F (Fin (?r (nrm_real ?r lo hi y - (- 0.5)))) (Fin (?r (hi - lo)))
      = Fin (?r (?r (nrm_real ?r lo hi y - (- 0.5)) * ?r (hi - lo)))"
    unfolding fl_mul_def np_mul.simps
    using fl_round_in_range [of F "?r (nrm_real ?r lo hi y - (- 0.5)) * ?r (hi - lo)"] b(7) DM big
    by (simp del: fl_round.simps)
  show ?thesis
    unfolding elt_unnormalize_def v w d p fl_add_def np_add.simps
    using fl_round_in_range [of F "lo + ?r (?r (nrm_real ?r lo hi y - (- 0.5)) * ?r (hi - lo))"]
      b(8) big
    by (simp add: unn_real_def del: fl_round.simps)
qed

lemma normalize_y_fl_Fin:
  assumes "ys \<noteq> []"
  shows "normalize_y_fl F (map Fin ys) =
     Inr (map (\<lambda>y. elt_normalize F (Fin (Min (set ys))) (Fin (Max (set ys))) (Fin y)) ys)"
proof -
  obtain a as where ys: "ys = a # as" using assms by (cases ys) auto
  have mn: "np_min (map Fin ys) = Inr (Fin (Min (set ys)))"
    unfolding ys by (rule np_min_Fin)
  have mx: "np_max (map Fin ys) = Inr (Fin (Max (set ys)))"
    unfolding ys by (rule np_max_Fin)
  show ?thesis
    by (simp add: normalize_y_fl_def mn mx elt_normalize_def o_def)
qed

lemma unnormalize_y_fl_elt:
  assumes "original_y_min t = Some lo" "original_y_max t = Some hi"
  shows "unnormalize_y_fl F t vs = Inr (map (elt_unnormalize F lo hi) vs)"
  using assms by (simp add: unnormalize_y_fl_def elt_unnormalize_def o_def)

lemma roundtrip_format:
  assumes rm: "rounding_model F u eta" and u16: "u \<le> 1 / 16" and e16: "eta \<le> 1 / 16"
    and a: "a \<in> set ys" and b: "b \<in> set ys" and ab: "a \<noteq> b"
    and eD: "16 * eta \<le> Max (set ys) - Min (set ys)"
  shows "\<exists>ny t rs. normalize_y_fl F (map Fin ys) = Inr ny
      \<and> Target_init_fl F (map Fin ys) msk n True y_sum = Inr t
      \<and> tgt_y t = ny
      \<and> original_y_min t = Some (Fin (Min (set ys)))
      \<and> original_y_max t = Some (Fin (Max (set ys)))
      \<and> unnormalize_y_fl F t ny = Inr rs
      \<and> length rs = length ys
      \<and> (\<forall>i < length ys. \<forall>r. rs ! i = Fin r \<longrightarrow>
            \<bar>r - ys ! i\<bar> \<le> (16 * u + 4 * eta) * (1 + \<bar>Min (set ys)\<bar> + \<bar>Max (set ys)\<bar>))
      \<and> (4 * (\<bar>Min (set ys)\<bar> + \<bar>Max (set ys)\<bar>) + 3 \<le> fl_max F \<longrightarrow>
            (\<forall>i < length ys. \<exists>r. rs ! i = Fin r \<and>
               \<bar>r - ys ! i\<bar> \<le> (16 * u + 4 * eta) * (1 + \<bar>Min (set ys)\<bar> + \<bar>Max (set ys)\<bar>)))"
proof -
  let ?lo = "Min (set ys)" and ?hi = "Max (set ys)"
  let ?r = "fl_rnd F"
  let ?tol = "(16 * u + 4 * eta) * (1 + \<bar>?lo\<bar> + \<bar>?hi\<bar>)"
  let ?en = "\<lambda>y. elt_normalize F (Fin ?lo) (Fin ?hi) (Fin y)"
  let ?ny = "map ?en ys"
  let ?rs = "map (elt_unnormalize F (Fin ?lo) (Fin ?hi)) ?ny"
  have R: "\<And>x. \<bar>?r x - x\<bar> \<le> u * \<bar>x\<bar> + eta" and u0: "0 \<le> u" and e0: "0 \<le> eta"
    using rm by (simp_all add: rounding_model_def)
  have ne: "ys \<noteq> []" using a by auto
  have "?lo \<noteq> ?hi" using a b ab by (rule Min_neq_Max)
  moreover have "?lo \<le> ?hi" using ne by simp
  ultimately have lohi: "?lo < ?hi" by simp
  obtain x xs where ys: "ys = x # xs" using ne by (cases ys) auto
  have mn: "np_min (map Fin ys) = Inr (Fin ?lo)"
    unfolding ys by (rule np_min_Fin)
  have mx: "np_max (map Fin ys) = Inr (Fin ?hi)"
    unfolding ys by (rule np_max_Fin)
  have nrm: "normalize_y_fl F (map Fin ys) = Inr ?ny"
    by (rule normalize_y_fl_Fin [OF ne])
  define t where "t = \<lparr> original_y_min = Some (Fin ?lo), original_y_max = Some (Fin ?hi),
      tgt_y = ?ny, tgt_mask = msk,
      tgt_inverse_mask_int = map (\<lambda>b. if b then 0 else 1) msk, tgt_n_obsv = n,
      y_sum_cache_up_to_date = (y_sum \<noteq> None), tgt_summed_y = y_sum \<rparr>"
  have ti: "Target_init_fl F (map Fin ys) msk n True y_sum = Inr t"
    by (simp add: Target_init_fl_def mn mx nrm t_def)
  have lo: "original_y_min t = Some (Fin ?lo)" and hi: "original_y_max t = Some (Fin ?hi)"
    and ty: "tgt_y t = ?ny"
    by (simp_all add: t_def)
  have un: "unnormalize_y_fl F t ?ny = Inr ?rs"
    using lo hi by (rule unnormalize_y_fl_elt)
  have len: "length ?rs = length ys" by simp
  have nth: "?rs ! i = elt_unnormalize F (Fin ?lo) (Fin ?hi) (?en (ys ! i))" if "i < length ys" for i
    using that by simp
  have rng: "?lo \<le> ys ! i \<and> ys ! i \<le> ?hi" if "i < length ys" for i
    using that by simp
  have err: "\<bar>unn_real ?r ?lo ?hi (nrm_real ?r ?lo ?hi (ys ! i)) - ys ! i\<bar> \<le> ?tol"
    if "i < length ys" for i
    using roundtrip_real(9) [OF R u0 u16 e0 e16 eD lohi] rng [OF that] by blast
  have fin: "\<forall>i < length ys. \<forall>r. ?rs ! i = Fin r \<longrightarrow> \<bar>r - ys ! i\<bar> \<le> ?tol"
  proof (intro allI impI)
    fix i r assume i: "i < length ys" and r: "?rs ! i = Fin r"
    have "elt_unnormalize F (Fin ?lo) (Fin ?hi) (?en (ys ! i)) = Fin r"
      using r nth [OF i] by simp
    then have "r = unn_real ?r ?lo ?hi (nrm_real ?r ?lo ?hi (ys ! i))"
      using elt_roundtrip_finite_value [OF rm u16 e16 eD lohi] rng [OF i] by blast
    then show "\<bar>r - ys ! i\<bar> \<le> ?tol" using err [OF i] by simp
  qed
  have ok: "\<forall>i < length ys. \<exists>r. ?rs ! i = Fin r \<and> \<bar>r - ys ! i\<bar> \<le> ?tol"
    if big: "4 * (\<bar>?lo\<bar> + \<bar>?hi\<bar>) + 3 \<le> fl_max F"
  proof (intro allI impI)
    fix i assume i: "i < length ys"
    have "elt_unnormalize F (Fin ?lo) (Fin ?hi) (?en (ys ! i))
        = Fin (unn_real ?r ?lo ?hi (nrm_real ?r ?lo ?hi (ys ! i)))"
      using elt_roundtrip_no_overflow [OF rm u16 e16 eD lohi _ _ big] rng [OF i] by blast
    then show "\<exists>r. ?rs ! i = Fin r \<and> \<bar>r - ys ! i\<bar> \<le> ?tol"
      using nth [OF i] err [OF i] by simp
  qed
  show ?thesis
    apply (rule exI [of _ ?ny], rule exI [of _ t], rule exI [of _ ?rs])
    using nrm ti ty lo hi un len fin ok by (intro conjI impI) assumption+
qed

subsection \<open>The claim\<close>

text \<open>
  Claim C2, as stated: for every finite, non-constant vector \<open>y\<close>, un-normalizing the
  normalized vector gives \<open>y\<close> back within floating tolerance. The float64 vector
  \<open>[- 2 ^ 1023, 2 ^ 1023]\<close> is finite and not constant, but its range \<open>max - min\<close> is
  \<open>2 ^ 1024\<close>, which overflows to \<open>inf\<close>: \<open>normalize_y\<close> returns \<open>[-0.5, nan]\<close> (the
  second element is \<open>inf / inf\<close>), the normalizing \<open>Target\<close> stores the two values as
  minimum and maximum, and un-normalizing its normalized vector gives \<open>[nan, nan]\<close>
  (the first element is \<open>- 2 ^ 1023 + 0 * inf\<close>), which is within no tolerance of \<open>y\<close>.
\<close>

theorem roundtrip_overflow_gives_nan:
  "normalize_y_fl float64 [Fin (- (2 ^ 1023)), Fin (2 ^ 1023)] = Inr [Fin (- (1 / 2)), NaN]
   \<and> (\<exists>t. Target_init_fl float64 [Fin (- (2 ^ 1023)), Fin (2 ^ 1023)] [False, False] 2
             True None = Inr t
        \<and> original_y_min t = Some (Fin (- (2 ^ 1023)))
        \<and> original_y_max t = Some (Fin (2 ^ 1023))
        \<and> unnormalize_y_fl float64 t (tgt_y t) = Inr [NaN, NaN])"
proof -
  define B :: real where "B = 2 ^ 1023"
  have pos: "0 < B" by (simp add: B_def)
  have "B - (- B) = 2 ^ 1024" by (simp add: B_def)
  then have "fl_round float64 (Fin (B - (- B))) = PInf"
    by (simp only: float64_overflow)
  then have range: "fl_sub float64 (Fin B) (Fin (- B)) = PInf"
    by (simp only: fl_sub_def np_sub_def np_neg.simps np_add.simps diff_conv_add_uminus)
  have zero: "fl_sub float64 (Fin (- B)) (Fin (- B)) = Fin 0"
    by (simp add: fl_sub_def np_sub_def float64_zero del: fl_round.simps)
  have mn: "np_minimum (Fin B) (Fin (- B)) = Fin (- B)"
    and mx: "np_maximum (Fin B) (Fin (- B)) = Fin B"
    using pos by (simp_all add: np_minimum_def np_maximum_def)
  have n: "normalize_y_fl float64 [Fin (- B), Fin B] = Inr [Fin (- (1 / 2)), NaN]"
    by (simp add: normalize_y_fl_def mn mx range zero fl_add_def fl_div_def
        float64_zero float64_minus_half del: fl_round.simps(1))
  have u: "\<exists>t. Target_init_fl float64 [Fin (- B), Fin B] [False, False] 2 True None = Inr t
        \<and> original_y_min t = Some (Fin (- B))
        \<and> original_y_max t = Some (Fin B)
        \<and> unnormalize_y_fl float64 t (tgt_y t) = Inr [NaN, NaN]"
    by (simp add: Target_init_fl_def n mn mx unnormalize_y_fl_def range fl_add_def fl_mul_def
        fl_sub_def [of _ "Fin (- (1 / 2))" "Fin (- (1 / 2))"] fl_sub_def [of _ NaN]
        np_sub_def float64_zero del: fl_round.simps(1))
  show ?thesis
    using n u unfolding B_def by (rule conjI)
qed

text \<open>
  Claim C2, amended: let \<open>ys\<close> be a vector of finite values that holds two different
  values and whose range \<open>max - min\<close> is at least \<open>2 ^ -1071\<close>. Then
  \<open>normalize_y\<close> returns a vector \<open>ny\<close>, the normalizing \<open>Target\<close> built from \<open>ys\<close>
  stores \<open>ny\<close> with the minimum and the maximum of \<open>ys\<close>, and its \<open>unnormalize_y\<close> maps
  \<open>ny\<close> to a vector \<open>rs\<close> as long as \<open>ys\<close>, each element of which is either not finite
  or within \<open>(2 ^ -49 + 2 ^ -1073) * (1 + \<bar>min\<bar> + \<bar>max\<bar>)\<close> of the element of \<open>ys\<close> at
  the same place. If moreover \<open>4 * (\<bar>min\<bar> + \<bar>max\<bar>) + 3\<close> is at most the largest finite
  float64, nothing overflows: every element of \<open>rs\<close> is finite and within that
  tolerance.
\<close>

theorem roundtrip_within_tolerance_unless_overflow:
  assumes a: "a \<in> set ys" and b: "b \<in> set ys" and ab: "a \<noteq> b"
    and eD: "16 / 2 ^ 1075 \<le> Max (set ys) - Min (set ys)"
  shows "\<exists>ny t rs. normalize_y_fl float64 (map Fin ys) = Inr ny
      \<and> Target_init_fl float64 (map Fin ys) msk n True y_sum = Inr t
      \<and> tgt_y t = ny
      \<and> original_y_min t = Some (Fin (Min (set ys)))
      \<and> original_y_max t = Some (Fin (Max (set ys)))
      \<and> unnormalize_y_fl float64 t ny = Inr rs
      \<and> length rs = length ys
      \<and> (\<forall>i < length ys. \<forall>r. rs ! i = Fin r \<longrightarrow>
            \<bar>r - ys ! i\<bar>
              \<le> (16 / 2 ^ 53 + 4 / 2 ^ 1075) * (1 + \<bar>Min (set ys)\<bar> + \<bar>Max (set ys)\<bar>))
      \<and> (4 * (\<bar>Min (set ys)\<bar> + \<bar>Max (set ys)\<bar>) + 3 \<le> fl_max float64 \<longrightarrow>
            (\<forall>i < length ys. \<exists>r. rs ! i = Fin r \<and>
               \<bar>r - ys ! i\<bar>
                 \<le> (16 / 2 ^ 53 + 4 / 2 ^ 1075) * (1 + \<bar>Min (set ys)\<bar> + \<bar>Max (set ys)\<bar>)))"
proof -
  have u16: "1 / 2 ^ 53 \<le> (1 / 16 :: real)" and e16: "1 / 2 ^ 1075 \<le> (1 / 16 :: real)"
    by simp_all
  have eD': "16 * (1 / 2 ^ 1075) \<le> Max (set ys) - Min (set ys)"
    using eD by simp
  show ?thesis
    using roundtrip_format [OF float64_rounding u16 e16 a b ab eD', of msk n y_sum]
    by (simp only: times_divide_eq_right mult_1_right)
qed


theorem roundtrip_within_tolerance_unless_overflow_witness:
  "\<exists>t rs. Target_init_fl float64 (map Fin [1, 2, 3]) [False, False, False] 3 True None = Inr t
     \<and> tgt_y t = [Fin (- (1 / 2)), Fin 0, Fin (1 / 2)]
     \<and> unnormalize_y_fl float64 t (tgt_y t) = Inr rs
     \<and> length rs = 3
     \<and> (\<exists>r. rs ! 1 = Fin r \<and> \<bar>r - 2\<bar> \<le> (16 / 2 ^ 53 + 4 / 2 ^ 1075) * 5)"
proof -
  have rng: "16 / 2 ^ 1075 \<le> Max (set [1, 2, 3 :: real]) - Min (set [1, 2, 3 :: real])"
    by simp
  have big: "4 * (\<bar>Min (set [1, 2, 3 :: real])\<bar> + \<bar>Max (set [1, 2, 3 :: real])\<bar>) + 3
      \<le> fl_max float64"
    by (simp add: float64_def)
  have "\<exists>ny t rs. normalize_y_fl float64 (map Fin [1, 2, 3]) = Inr ny
      \<and> Target_init_fl float64 (map Fin [1, 2, 3]) [False, False, False] 3 True None = Inr t
      \<and> tgt_y t = ny
      \<and> original_y_min t = Some (Fin (Min (set [1, 2, 3])))
      \<and> original_y_max t = Some (Fin (Max (set [1, 2, 3])))
      \<and> unnormalize_y_fl float64 t ny = Inr rs
      \<and> length rs = length [1, 2, 3 :: real]
      \<and> (\<forall>i < length [1, 2, 3 :: real]. \<forall>r. rs ! i = Fin r \<longrightarrow>
            \<bar>r - [1, 2, 3] ! i\<bar>
              \<le> (16 / 2 ^ 53 + 4 / 2 ^ 1075) * (1 + \<bar>Min (set [1, 2, 3])\<bar> + \<bar>Max (set [1, 2, 3])\<bar>))
      \<and> (4 * (\<bar>Min (set [1, 2, 3 :: real])\<bar> + \<bar>Max (set [1, 2, 3 :: real])\<bar>) + 3 \<le> fl_max float64 \<longrightarrow>
            (\<forall>i < length [1, 2, 3 :: real]. \<exists>r. rs ! i = Fin r \<and>
               \<bar>r - [1, 2, 3] ! i\<bar>
                 \<le> (16 / 2 ^ 53 + 4 / 2 ^ 1075) * (1 + \<bar>Min (set [1, 2, 3])\<bar> + \<bar>Max (set [1, 2, 3])\<bar>)))"
    by (rule roundtrip_within_tolerance_unless_overflow [where a = 1 and b = 2 and ys = "[1, 2, 3]" and msk = "[False, False, False]"
          and n = 3 and y_sum = None, OF _ _ _ rng]) simp_all
  then obtain ny t rs where
    n: "normalize_y_fl float64 (map Fin [1, 2, 3]) = Inr ny"
    and t: "Target_init_fl float64 (map Fin [1, 2, 3]) [False, False, False] 3 True None = Inr t"
    and ty: "tgt_y t = ny"
    and un: "unnormalize_y_fl float64 t ny = Inr rs"
    and len: "length rs = length [1, 2, 3 :: real]"
    and ok: "4 * (\<bar>Min (set [1, 2, 3 :: real])\<bar> + \<bar>Max (set [1, 2, 3 :: real])\<bar>) + 3 \<le> fl_max float64 \<longrightarrow>
            (\<forall>i < length [1, 2, 3 :: real]. \<exists>r. rs ! i = Fin r \<and>
               \<bar>r - [1, 2, 3] ! i\<bar>
                 \<le> (16 / 2 ^ 53 + 4 / 2 ^ 1075) * (1 + \<bar>Min (set [1, 2, 3])\<bar> + \<bar>Max (set [1, 2, 3])\<bar>))"
    by blast
  have "\<forall>i < length [1, 2, 3 :: real]. \<exists>r. rs ! i = Fin r \<and>
               \<bar>r - [1, 2, 3] ! i\<bar>
                 \<le> (16 / 2 ^ 53 + 4 / 2 ^ 1075) * (1 + \<bar>Min (set [1, 2, 3])\<bar> + \<bar>Max (set [1, 2, 3])\<bar>)"
    using ok big by (rule mp)
  then have "1 < length [1, 2, 3 :: real] \<longrightarrow> (\<exists>r. rs ! 1 = Fin r \<and>
               \<bar>r - [1, 2, 3] ! 1\<bar>
                 \<le> (16 / 2 ^ 53 + 4 / 2 ^ 1075) * (1 + \<bar>Min (set [1, 2, 3])\<bar> + \<bar>Max (set [1, 2, 3])\<bar>))"
    by (rule spec)
  then obtain r where r: "rs ! 1 = Fin r"
    and "\<bar>r - [1, 2, 3] ! 1\<bar>
           \<le> (16 / 2 ^ 53 + 4 / 2 ^ 1075) * (1 + \<bar>Min (set [1, 2, 3])\<bar> + \<bar>Max (set [1, 2, 3])\<bar>)"
    by auto
  moreover have "[1, 2, 3 :: real] ! 1 = 2" by simp
  moreover have "1 + \<bar>Min (set [1, 2, 3 :: real])\<bar> + \<bar>Max (set [1, 2, 3 :: real])\<bar> = 5" by simp
  ultimately have "\<bar>r - 2\<bar> \<le> (16 / 2 ^ 53 + 4 / 2 ^ 1075) * 5" by (simp only:)
  with r have one: "\<exists>r. rs ! 1 = Fin r \<and> \<bar>r - 2\<bar> \<le> (16 / 2 ^ 53 + 4 / 2 ^ 1075) * 5"
    by blast
  have nyv: "ny = [Fin (- (1 / 2)), Fin 0, Fin (1 / 2)]"
    using n example_normalized by simp
  have l3: "length rs = 3" using len by simp
  show ?thesis
    using t ty un l3 one nyv by (intro exI [of _ t] exI [of _ rs] conjI) simp_all
qed

section \<open>Target: the cached masked sum\<close>

lemma masked_sum_filter:
  fixes vs :: "real list" and ms :: "bool list"
  shows "length vs = length ms \<Longrightarrow>
   sum_list (map2 (\<lambda>v m. v * real_of_int (if m then 0 else 1)) vs ms) =
   sum_list (map fst (filter (\<lambda>(v, m). \<not> m) (zip vs ms)))"
  by (induction vs ms rule: list_induct2) simp_all

lemma masked_product_Fin:
  assumes "length vs = length (tgt_mask t)" "tgt_y t = map Fin vs"
    "tgt_inverse_mask_int t = map (\<lambda>b. if b then 0 else 1) (tgt_mask t)"
  shows "masked_product t =
     Inr (map Fin (map2 (\<lambda>v m. v * real_of_int (if m then 0 else 1)) vs (tgt_mask t)))"
  using assms
  by (simp add: masked_product_def np_broadcast2_def zip_map1 zip_map2 o_def case_prod_beta)

text \<open>
  Claim C3, for every \<open>Target\<close> \<open>t\<close>, whatever its values and mask:
  \<^item> with a stale cache, \<open>summed_y\<close> recomputes \<open>sum(values * inverse_mask)\<close>, stores it
    and marks the cache valid; with a valid cache it returns the stored value and
    changes nothing;
  \<^item> \<open>update_y\<close> replaces the values and marks the cache stale, whatever it was, so
    \<open>summed_y\<close> right after \<open>update_y\<close> recomputes from the new values;
  \<^item> a second call of \<open>summed_y\<close> with no mutation in between returns what the first
    returned;
  \<^item> for finite new values \<open>vs\<close>, one per mask entry, the recomputed value is the sum of
    the values at which the mask is false.
\<close>

theorem summed_y_cache_correct:
  "(\<not> y_sum_cache_up_to_date t \<longrightarrow>
      summed_y t = (case masked_product t of Inl e \<Rightarrow> Inl e
        | Inr p \<Rightarrow> Inr (Some (np_sum p),
                  t\<lparr> tgt_summed_y := Some (np_sum p), y_sum_cache_up_to_date := True \<rparr>)))
   \<and> (y_sum_cache_up_to_date t \<longrightarrow> summed_y t = Inr (tgt_summed_y t, t))
   \<and> update_y t y = t\<lparr> tgt_y := y, y_sum_cache_up_to_date := False \<rparr>
   \<and> summed_y (update_y t y) =
        (case masked_product (update_y t y) of Inl e \<Rightarrow> Inl e
         | Inr p \<Rightarrow> Inr (Some (np_sum p),
                  (update_y t y)\<lparr> tgt_summed_y := Some (np_sum p),
                                  y_sum_cache_up_to_date := True \<rparr>))
   \<and> (case summed_y t of Inl e \<Rightarrow> True | Inr (s, t') \<Rightarrow> summed_y t' = Inr (s, t'))
   \<and> (length vs = length (tgt_mask t) \<longrightarrow>
      tgt_inverse_mask_int t = map (\<lambda>b. if b then 0 else 1) (tgt_mask t) \<longrightarrow>
        (\<exists>t'. summed_y (update_y t (map Fin vs)) =
           Inr (Some (Fin (sum_list (map fst (filter (\<lambda>(v, m). \<not> m) (zip vs (tgt_mask t)))))), t')
          \<and> summed_y t' =
           Inr (Some (Fin (sum_list (map fst (filter (\<lambda>(v, m). \<not> m) (zip vs (tgt_mask t)))))), t')))"
proof -
  have stale: "\<not> y_sum_cache_up_to_date t \<Longrightarrow>
      summed_y t = (case masked_product t of Inl e \<Rightarrow> Inl e
        | Inr p \<Rightarrow> Inr (Some (np_sum p),
                  t\<lparr> tgt_summed_y := Some (np_sum p), y_sum_cache_up_to_date := True \<rparr>))" for t
    by (simp add: summed_y_def Let_def split: sum.splits)
  have fresh: "y_sum_cache_up_to_date t \<Longrightarrow> summed_y t = Inr (tgt_summed_y t, t)" for t
    by (simp add: summed_y_def)
  have upd: "update_y t y = t\<lparr> tgt_y := y, y_sum_cache_up_to_date := False \<rparr>" for y
    by (simp add: update_y_def)
  have after: "summed_y (update_y t y) =
        (case masked_product (update_y t y) of Inl e \<Rightarrow> Inl e
         | Inr p \<Rightarrow> Inr (Some (np_sum p),
                  (update_y t y)\<lparr> tgt_summed_y := Some (np_sum p),
                                  y_sum_cache_up_to_date := True \<rparr>))" for y
    by (rule stale) (simp add: update_y_def)
  have twice: "(case summed_y t of Inl e \<Rightarrow> True | Inr (s, t') \<Rightarrow> summed_y t' = Inr (s, t'))"
    by (cases "y_sum_cache_up_to_date t")
       (auto simp: summed_y_def Let_def split: sum.splits)
  have fin: "\<exists>t'. summed_y (update_y t (map Fin vs)) =
           Inr (Some (Fin (sum_list (map fst (filter (\<lambda>(v, m). \<not> m) (zip vs (tgt_mask t)))))), t')
          \<and> summed_y t' =
           Inr (Some (Fin (sum_list (map fst (filter (\<lambda>(v, m). \<not> m) (zip vs (tgt_mask t)))))), t')"
    if len: "length vs = length (tgt_mask t)"
      and inv: "tgt_inverse_mask_int t = map (\<lambda>b. if b then 0 else 1) (tgt_mask t)"
  proof -
    let ?u = "update_y t (map Fin vs)"
    have "masked_product ?u =
       Inr (map Fin (map2 (\<lambda>v m. v * real_of_int (if m then 0 else 1)) vs (tgt_mask ?u)))"
      by (rule masked_product_Fin) (simp_all add: update_y_def len inv)
    then have mp: "masked_product ?u =
       Inr (map Fin (map2 (\<lambda>v m. v * real_of_int (if m then 0 else 1)) vs (tgt_mask t)))"
      by (simp add: update_y_def)
    have s: "np_sum (map Fin (map2 (\<lambda>v m. v * real_of_int (if m then 0 else 1)) vs (tgt_mask t)))
        = Fin (sum_list (map fst (filter (\<lambda>(v, m). \<not> m) (zip vs (tgt_mask t)))))"
      unfolding np_sum_Fin using masked_sum_filter [OF len] by simp
    show ?thesis
      unfolding after mp
      by (simp add: s summed_y_def del: map_map)
  qed
  show ?thesis
    using stale [of t] fresh [of t] upd after twice fin by blast
qed

theorem summed_y_cache_correct_witness:
  "\<exists>t'. summed_y (update_y
            \<lparr> original_y_min = None, original_y_max = None, tgt_y = [Fin 1, Fin 2, Fin 3],
              tgt_mask = [False, True, False], tgt_inverse_mask_int = [1, 0, 1], tgt_n_obsv = 2,
              y_sum_cache_up_to_date = True, tgt_summed_y = Some (Fin 4) \<rparr>
            [Fin 10, Fin 20, Fin 30]) = Inr (Some (Fin 40), t')
        \<and> summed_y t' = Inr (Some (Fin 40), t')"
  using summed_y_cache_correct [where vs = "[10, 20, 30]" and y = "[]" and t =
            "\<lparr> original_y_min = None, original_y_max = None, tgt_y = [Fin 1, Fin 2, Fin 3],
              tgt_mask = [False, True, False], tgt_inverse_mask_int = [1, 0, 1], tgt_n_obsv = 2,
              y_sum_cache_up_to_date = True, tgt_summed_y = Some (Fin 4) \<rparr>"]
  by simp

section \<open>LeafNodeSampler: the posterior draw\<close>

lemma np_inverse_of_quotient:
  "0 < n \<Longrightarrow> np_div (Fin 1) (np_div v (Fin n)) = np_div (Fin n) v"
  by (cases v) auto

lemma np_mul_div_assoc: "np_mul a (np_div b c) = np_div (np_mul a b) c"
  by (cases a; cases b; cases c)
     (auto simp: zero_less_mult_iff mult_less_0_iff divide_less_0_iff zero_less_divide_iff
        not_less mult_le_0_iff zero_le_mult_iff)

lemma np_power_half_sqrt:
  "0 < k \<Longrightarrow> np_power_half (np_div (np_div (Fin 1) v) (Fin k)) =
     np_sqrt (np_div (np_div (Fin 1) v) (Fin k))"
  by (cases v) (auto simp: divide_less_0_iff)

lemma leaf_sample_np:
  assumes n: "1 \<le> data_n_obsv (node_data node)"
    and k: "1 \<le> model_n_trees model"
    and eps: "NormalScalarSampler_sample (scalar_sampler self) st = Inr (eps, st')"
  shows "LeafNodeSampler_sample self model node st =
      Inr (spec_np_leaf_draw (model_sigma_m model) (model_sigma_current_value model)
             (data_n_obsv (node_data node)) (model_n_trees model) (data_y (node_data node)) eps,
           st')"
proof -
  have n0: "0 < real_of_int (data_n_obsv (node_data node))"
    and k0: "0 < real_of_int (model_n_trees model)"
    using n k by simp_all
  show ?thesis
    unfolding LeafNodeSampler_sample_def spec_np_leaf_draw_def Let_def eps
    by (simp only: sum.case prod.case np_inverse_of_quotient [OF n0] np_mul_div_assoc
        np_power_half_sqrt [OF k0])
qed

lemma spec_np_leaf_draw_Fin:
  assumes n: "1 \<le> n" and k: "1 \<le> k" and s: "s \<noteq> 0" and m: "m \<noteq> 0" and ys: "ys \<noteq> []"
  shows "spec_np_leaf_draw (Fin m) (Fin s) n k (map Fin ys) eps = Fin (spec_leaf_draw m s n k ys eps)"
proof -
  define n' where "n' = real_of_int n"
  define k' where "k' = real_of_int k"
  define pr where "pr = m * m"
  define sq where "sq = s * s"
  define lv where "lv = sq / n'"
  define iv where "iv = 1 / pr + n' / sq"
  define pv where "pv = 1 / iv"
  define mu where "mu = sum_list ys / real (length ys)"
  have n0: "0 < n'" and k0: "0 < k'" using n k by (simp_all add: n'_def k'_def)
  have pr0: "0 < pr" using m by (auto simp: pr_def zero_less_mult_iff)
  have sq0: "0 < sq" using s by (auto simp: sq_def zero_less_mult_iff)
  have lv0: "0 < lv" using sq0 n0 by (simp add: lv_def)
  have "0 < 1 / pr" "0 < n' / sq" using pr0 sq0 n0 by simp_all
  then have iv0: "0 < iv" unfolding iv_def by (rule add_pos_pos)
  have pv0: "0 < pv" using iv0 by (simp add: pv_def)
  have sum0: "0 < lv + pr" using lv0 pr0 by (rule add_pos_pos)
  have q0: "\<not> pv / k' < 0" using pv0 k0 by (simp add: not_less)
  have ne: "n' \<noteq> 0" "k' \<noteq> 0" "pr \<noteq> 0" "sq \<noteq> 0" "iv \<noteq> 0" "lv + pr \<noteq> 0"
      "real (length ys) \<noteq> 0"
    using n0 k0 pr0 sq0 iv0 sum0 ys by simp_all
  have mean: "np_mean (map Fin ys) = Fin mu"
    using ne(7) by (simp add: np_mean_def np_sum_Fin mu_def)
  have s1: "np_mul (Fin m) (Fin m) = Fin pr" by (simp add: pr_def)
  have s1': "np_mul (Fin s) (Fin s) = Fin sq" by (simp add: sq_def)
  have s2: "np_div (Fin sq) (Fin n') = Fin lv"
    using ne(1) by (simp add: lv_def)
  have s3: "np_add (np_div (Fin 1) (Fin pr)) (np_div (Fin n') (Fin sq)) = Fin iv"
    using ne(3,4) by (simp add: iv_def)
  have s4: "np_div (Fin 1) (Fin iv) = Fin pv"
    using ne(5) by (simp add: pv_def)
  have s5: "np_div (np_mul (Fin mu) (Fin pr)) (np_add (Fin lv) (Fin pr)) = Fin (mu * pr / (lv + pr))"
    using ne(6) by simp
  have s6: "np_sqrt (np_div (Fin pv) (Fin k')) = Fin (sqrt (pv / k'))"
    using ne(2) q0 by simp
  have code: "spec_np_leaf_draw (Fin m) (Fin s) n k (map Fin ys) eps =
      Fin (mu * pr / (lv + pr) + eps * sqrt (pv / k'))"
    unfolding spec_np_leaf_draw_def Let_def mean
      n'_def [symmetric] k'_def [symmetric] s1 s1' s2 s3 s4 s5 s6
    by simp
  have a: "pv = spec_posterior_variance m s n"
    by (simp add: spec_posterior_variance_def power2_eq_square pv_def iv_def pr_def sq_def n'_def)
  have b: "mu * pr / (lv + pr) = spec_posterior_mean m s n ys"
    by (simp add: spec_posterior_mean_def spec_likelihood_var_def power2_eq_square
        mu_def pr_def lv_def sq_def n'_def)
  show ?thesis
    unfolding code a b by (simp add: spec_leaf_draw_def k'_def)
qed

lemma leaf_sample_Fin:
  assumes n: "1 \<le> data_n_obsv (node_data node)"
    and sg: "model_sigma_current_value model = Fin s" "s \<noteq> 0"
    and sm: "model_sigma_m model = Fin m" "m \<noteq> 0"
    and k: "1 \<le> model_n_trees model"
    and ys: "data_y (node_data node) = map Fin ys" "ys \<noteq> []"
    and eps: "NormalScalarSampler_sample (scalar_sampler self) st = Inr (eps, st')"
  shows "LeafNodeSampler_sample self model node st =
      Inr (Fin (spec_leaf_draw m s (data_n_obsv (node_data node)) (model_n_trees model) ys eps), st')"
  unfolding leaf_sample_np [OF n k eps] sg(1) sm(1) ys(1)
  by (simp only: spec_np_leaf_draw_Fin [OF n k sg(2) sm(2) ys(2)])

lemma example_draw: "spec_leaf_draw 2 2 3 1 [4, 4, 4] 3 = 6"
  by (simp add: spec_leaf_draw_def spec_posterior_mean_def spec_posterior_variance_def
      spec_likelihood_var_def)

text \<open>
  Claim C1: for every model with at least one tree and every leaf with \<open>n \<ge> 1\<close>
  observations, \<open>sample\<close> returns
  \<open>posterior_mean + eps * sqrt (posterior_variance / n_trees)\<close>, computed in numpy
  arithmetic from \<open>likelihood_var = sigma^2 / n\<close>,
  \<open>posterior_variance = 1 / (1 / prior_var + n / sigma^2)\<close> and
  \<open>posterior_mean = likelihood_mean * prior_var / (likelihood_var + prior_var)\<close>, where
  \<open>eps\<close> is the value that the next call of the scalar sampler's \<open>sample()\<close> returns;
  \<open>step\<close> returns the same value and leaves the node with exactly this value. For
  finite non-zero \<open>sigma = s\<close> and \<open>sigma_m = m\<close> and a non-empty finite target partition
  \<open>ys\<close> the value is the real number \<open>spec_leaf_draw m s n n_trees ys eps\<close>.
\<close>

theorem leaf_sample_is_posterior_draw:
  assumes "1 \<le> data_n_obsv (node_data node)"
    and "1 \<le> model_n_trees model"
    and "NormalScalarSampler_sample (scalar_sampler self) st = Inr (eps, st')"
  shows "LeafNodeSampler_sample self model node st =
      Inr (spec_np_leaf_draw (model_sigma_m model) (model_sigma_current_value model)
             (data_n_obsv (node_data node)) (model_n_trees model) (data_y (node_data node)) eps,
           st')
    \<and> LeafNodeSampler_step self model node st =
      Inr (spec_np_leaf_draw (model_sigma_m model) (model_sigma_current_value model)
             (data_n_obsv (node_data node)) (model_n_trees model) (data_y (node_data node)) eps,
           node\<lparr> node_value :=
             spec_np_leaf_draw (model_sigma_m model) (model_sigma_current_value model)
               (data_n_obsv (node_data node)) (model_n_trees model) (data_y (node_data node)) eps \<rparr>,
           st')
    \<and> (model_sigma_current_value model = Fin s \<longrightarrow> s \<noteq> 0 \<longrightarrow>
        model_sigma_m model = Fin m \<longrightarrow> m \<noteq> 0 \<longrightarrow>
        data_y (node_data node) = map Fin ys \<longrightarrow> ys \<noteq> [] \<longrightarrow>
        spec_np_leaf_draw (model_sigma_m model) (model_sigma_current_value model)
             (data_n_obsv (node_data node)) (model_n_trees model) (data_y (node_data node)) eps
          = Fin (spec_leaf_draw m s (data_n_obsv (node_data node)) (model_n_trees model) ys eps))"
  using leaf_sample_np [OF assms] spec_np_leaf_draw_Fin [OF assms(1,2), of s m ys eps]
  by (simp add: LeafNodeSampler_step_def set_value_def)

theorem leaf_sample_is_posterior_draw_witness:
  "\<exists>st'. LeafNodeSampler_sample \<lparr> scalar_sampler = 0 \<rparr> example_model example_node example_pystate
          = Inr (Fin 6, st')
      \<and> LeafNodeSampler_step \<lparr> scalar_sampler = 0 \<rparr> example_model example_node example_pystate
          = Inr (Fin 6, example_node\<lparr> node_value := Fin 6 \<rparr>, st')"
proof -
  obtain st' where d:
    "NormalScalarSampler_sample (scalar_sampler \<lparr> scalar_sampler = 0 \<rparr>) example_pystate
      = Inr (3, st')"
    by (simp add: NormalScalarSampler_sample_def example_pystate_def)
  have n: "1 \<le> data_n_obsv (node_data example_node)" and k: "1 \<le> model_n_trees example_model"
    by (simp_all add: example_node_def example_model_def)
  have "LeafNodeSampler_sample \<lparr> scalar_sampler = 0 \<rparr> example_model example_node example_pystate
          = Inr (Fin 6, st')
      \<and> LeafNodeSampler_step \<lparr> scalar_sampler = 0 \<rparr> example_model example_node example_pystate
          = Inr (Fin 6, example_node\<lparr> node_value := Fin 6 \<rparr>, st')"
    using leaf_sample_is_posterior_draw [OF n k d, where s = 2 and m = 2 and ys = "[4, 4, 4]"]
    by (simp add: example_model_def example_node_def example_draw)
  then show ?thesis by blast
qed

section \<open>LeafNodeSampler: the default scalar sampler\<close>

lemma import_state:
  "leafnode_import (initial_pystate g) =
     (0, \<lparr> np_random = g, np_random_pos = 50000,
           heap = (\<lambda>_. None)(0 := Some \<lparr> cache_size = 50000, pool = map g [0..<50000], cursor = 0 \<rparr>),
           next_ref = Suc 0 \<rparr>)"
  by (simp add: leafnode_import_def NormalScalarSampler_init_def np_random_normal_def
      initial_pystate_def Let_def)

lemma sample_from_pool:
  assumes "heap st r = Some s" "cursor s < length (pool s)"
  shows "NormalScalarSampler_sample r st =
     Inr (pool s ! cursor s, st\<lparr> heap := (heap st)(r := Some (s\<lparr> cursor := Suc (cursor s) \<rparr>)) \<rparr>)"
  using assms by (simp add: NormalScalarSampler_sample_def)

text \<open>
  Claim C4 says that two \<open>LeafNodeSampler\<close> objects constructed without an argument
  each own a pool and a cursor. The source evaluates the default
  \<open>NormalScalarSampler(50000)\<close> once, at import, so both objects \<open>a\<close> and \<open>b\<close> hold the
  same reference. With the generator delivering \<open>0, 1, 2, ...\<close>: the next value of
  \<open>b\<close> is 3; after one draw through \<open>a\<close> (which returns 3) the next value of \<open>b\<close> is 4.
\<close>

theorem default_scalar_sampler_is_shared:
  "\<exists>d st a b st1 st2 st3.
      leafnode_import (initial_pystate real) = (d, st)
    \<and> a = LeafNodeSampler_init d None
    \<and> b = LeafNodeSampler_init d None
    \<and> scalar_sampler a = scalar_sampler b
    \<and> LeafNodeSampler_sample b example_model example_node st = Inr (Fin 3, st3)
    \<and> LeafNodeSampler_sample a example_model example_node st = Inr (Fin 3, st1)
    \<and> LeafNodeSampler_sample b example_model example_node st1 = Inr (Fin 4, st2)"
proof -
  let ?s0 = "\<lparr> cache_size = 50000, pool = map real [0..<50000], cursor = 0 \<rparr>"
  let ?st = "\<lparr> np_random = real, np_random_pos = 50000,
           heap = (\<lambda>_. None)(0 := Some ?s0), next_ref = Suc 0 \<rparr>"
  let ?st1 = "?st\<lparr> heap := (heap ?st)(0 := Some (?s0\<lparr> cursor := Suc (cursor ?s0) \<rparr>)) \<rparr>"
  let ?s1 = "?s0\<lparr> cursor := Suc (cursor ?s0) \<rparr>"
  let ?st2 = "?st1\<lparr> heap := (heap ?st1)(0 := Some (?s1\<lparr> cursor := Suc (cursor ?s1) \<rparr>)) \<rparr>"
  let ?a = "LeafNodeSampler_init 0 None"
  have imp: "leafnode_import (initial_pystate real) = (0, ?st)"
    by (rule import_state)
  have r: "scalar_sampler ?a = 0"
    by (simp add: LeafNodeSampler_init_def)
  have "NormalScalarSampler_sample 0 ?st = Inr (pool ?s0 ! cursor ?s0, ?st1)"
    by (rule sample_from_pool) simp_all
  then have d1: "NormalScalarSampler_sample 0 ?st = Inr (0, ?st1)"
    by simp
  have "NormalScalarSampler_sample 0 ?st1 = Inr (pool ?s1 ! cursor ?s1, ?st2)"
    by (rule sample_from_pool) simp_all
  then have d2: "NormalScalarSampler_sample 0 ?st1 = Inr (1, ?st2)"
    by simp
  have l1: "LeafNodeSampler_sample ?a example_model example_node ?st = Inr (Fin 3, ?st1)"
    using leaf_sample_Fin [where node = example_node and model = example_model and s = 2
        and m = 2 and ys = "[4, 4, 4]" and self = ?a and st = ?st and eps = 0 and st' = ?st1]
      d1 r
    by (simp add: example_model_def example_node_def spec_leaf_draw_def spec_posterior_mean_def
        spec_posterior_variance_def spec_likelihood_var_def)
  have l2: "LeafNodeSampler_sample ?a example_model example_node ?st1 = Inr (Fin 4, ?st2)"
    using leaf_sample_Fin [where node = example_node and model = example_model and s = 2
        and m = 2 and ys = "[4, 4, 4]" and self = ?a and st = ?st1 and eps = 1 and st' = ?st2]
      d2 r
    by (simp add: example_model_def example_node_def spec_leaf_draw_def spec_posterior_mean_def
        spec_posterior_variance_def spec_likelihood_var_def)
  show ?thesis
    using imp l1 l2 by blast
qed

section \<open>SklearnModel: the point prediction\<close>

lemma np_mean_Fin:
  "xs \<noteq> [] \<Longrightarrow> np_mean (map Fin xs) = Fin (sum_list xs / real (length xs))"
  by (simp add: np_mean_def np_sum_Fin)

lemma mean_axis0_Fin:
  assumes "P \<noteq> []" "\<forall>r \<in> set P. length r = n"
  shows "mean_axis0 (map (map Fin) P) =
     Vector (map (\<lambda>j. Fin (sum_list (map (\<lambda>r. r ! j) P) / real (length P))) [0..<n])"
proof -
  obtain r rs where P: "P = r # rs" using assms(1) by (cases P) auto
  have n: "length r = n" using assms(2) P by simp
  have col: "map (\<lambda>row. row ! j) (map (map Fin) P) = map Fin (map (\<lambda>r. r ! j) P)"
    if "j < n" for j
    using assms(2) that by (simp add: o_def)
  have "mean_axis0 (map (map Fin) P) =
      Vector (map (\<lambda>j. np_mean (map (\<lambda>row. row ! j) (map (map Fin) P))) [0..<n])"
    using n by (simp add: mean_axis0_def P)
  also have "map (\<lambda>j. np_mean (map (\<lambda>row. row ! j) (map (map Fin) P))) [0..<n] =
      map (\<lambda>j. Fin (sum_list (map (\<lambda>r. r ! j) P) / real (length P))) [0..<n]"
  proof (rule map_cong [OF refl])
    fix j assume "j \<in> set [0..<n]"
    then have "j < n" by simp
    have "map (\<lambda>r. r ! j) P \<noteq> []" using assms(1) by simp
    then have "np_mean (map Fin (map (\<lambda>r. r ! j) P)) =
        Fin (sum_list (map (\<lambda>r. r ! j) P) / real (length (map (\<lambda>r. r ! j) P)))"
      by (rule np_mean_Fin)
    then show "np_mean (map (\<lambda>row. row ! j) (map (map Fin) P)) =
        Fin (sum_list (map (\<lambda>r. r ! j) P) / real (length P))"
      by (simp only: col [OF \<open>j < n\<close>] length_map)
  qed
  finally show ?thesis .
qed

lemma Data_unnormalize_y_Fin:
  assumes "original_y_min (dat_y d) = Some (Fin lo)" "original_y_max (dat_y d) = Some (Fin hi)"
  shows "Data_unnormalize_y d (Vector (map (\<lambda>j. Fin (f j)) js)) =
     Inr (Vector (map (\<lambda>j. Fin (lo + (f j + 0.5) * (hi - lo))) js))"
proof -
  have "Data_unnormalize_y d (Vector (map Fin (map f js))) =
     Inr (Vector (map (\<lambda>v. Fin (lo + (v + 0.5) * (hi - lo))) (map f js)))"
    using unnormalize_y_Fin [OF assms, of "map f js"] by simp
  then show ?thesis by (simp only: map_map o_def)
qed

text \<open>
  Claim C6: for a fitted model whose data holds a normalizing \<open>Target\<close> with stored
  finite minimum \<open>lo\<close> and maximum \<open>hi\<close>:
  \<^item> with in-sample storage enabled and a finite prediction matrix \<open>P\<close> of at least one
    row and \<open>n\<close> columns, \<open>predict()\<close> returns, per column, the mean over all retained
    prediction samples, un-normalized as \<open>lo + (mean + 0.5) * (hi - lo)\<close>;
  \<^item> with at least one retained model, \<open>predict(X)\<close> returns, per observation, the mean
    of the retained models' predictions on \<open>X\<close>, un-normalized in the same way.
\<close>

theorem predict_is_unnormalized_mean:
  assumes "sk_data self = Some d"
    and "original_y_min (dat_y d) = Some (Fin lo)" "original_y_max (dat_y d) = Some (Fin hi)"
  shows "(sk_store_in_sample_predictions self \<longrightarrow>
          sk_prediction_samples self = Some (map (map Fin) P) \<longrightarrow>
          P \<noteq> [] \<longrightarrow> (\<forall>r \<in> set P. length r = n) \<longrightarrow>
          predict Model_predict self None =
            Inr (Vector (map (\<lambda>j. Fin (lo + (sum_list (map (\<lambda>r. r ! j) P) / real (length P) + 0.5)
                                          * (hi - lo))) [0..<n])))
     \<and> (sk_model_samples self = Some ms \<longrightarrow> ms \<noteq> [] \<longrightarrow>
          (\<forall>m \<in> set ms. Model_predict m X = map Fin (q m) \<and> length (q m) = n) \<longrightarrow>
          predict Model_predict self (Some X) =
            Inr (Vector (map (\<lambda>j. Fin (lo + (sum_list (map (\<lambda>m. q m ! j) ms) / real (length ms) + 0.5)
                                          * (hi - lo))) [0..<n])))"
proof (intro conjI impI)
  assume st: "sk_store_in_sample_predictions self"
    and ps: "sk_prediction_samples self = Some (map (map Fin) P)"
    and ne: "P \<noteq> []" and len: "\<forall>r \<in> set P. length r = n"
  have "predict Model_predict self None = Data_unnormalize_y d (mean_axis0 (map (map Fin) P))"
    using st ps assms(1) by (simp add: predict_def)
  also have "\<dots> = Data_unnormalize_y d
      (Vector (map (\<lambda>j. Fin (sum_list (map (\<lambda>r. r ! j) P) / real (length P))) [0..<n]))"
    by (simp only: mean_axis0_Fin [OF ne len])
  also have "\<dots> = Inr (Vector (map (\<lambda>j. Fin (lo + (sum_list (map (\<lambda>r. r ! j) P) / real (length P) + 0.5)
                                          * (hi - lo))) [0..<n]))"
    by (rule Data_unnormalize_y_Fin [OF assms(2,3)])
  finally show "predict Model_predict self None =
            Inr (Vector (map (\<lambda>j. Fin (lo + (sum_list (map (\<lambda>r. r ! j) P) / real (length P) + 0.5)
                                          * (hi - lo))) [0..<n]))" .
next
  assume ms: "sk_model_samples self = Some ms" and ne: "ms \<noteq> []"
    and q: "\<forall>m \<in> set ms. Model_predict m X = map Fin (q m) \<and> length (q m) = n"
  have rows: "map (\<lambda>x. Model_predict x X) ms = map (map Fin) (map q ms)"
    using q by (simp add: o_def)
  have ne': "map q ms \<noteq> []" using ne by simp
  have len: "\<forall>r \<in> set (map q ms). length r = n" using q by simp
  have "predict Model_predict self (Some X) =
      Data_unnormalize_y d (mean_axis0 (map (\<lambda>x. Model_predict x X) ms))"
    using ms assms(1) by (simp add: predict_def out_of_sample_predict_def)
  also have "\<dots> = Data_unnormalize_y d (mean_axis0 (map (map Fin) (map q ms)))"
    by (simp only: rows)
  also have "\<dots> = Data_unnormalize_y d
      (Vector (map (\<lambda>j. Fin (sum_list (map (\<lambda>r. r ! j) (map q ms)) / real (length (map q ms))))
         [0..<n]))"
    by (simp only: mean_axis0_Fin [OF ne' len])
  also have "\<dots> = Inr (Vector (map (\<lambda>j. Fin (lo +
        (sum_list (map (\<lambda>r. r ! j) (map q ms)) / real (length (map q ms)) + 0.5) * (hi - lo)))
         [0..<n]))"
    by (rule Data_unnormalize_y_Fin [OF assms(2,3)])
  finally show "predict Model_predict self (Some X) =
            Inr (Vector (map (\<lambda>j. Fin (lo + (sum_list (map (\<lambda>m. q m ! j) ms) / real (length ms) + 0.5)
                                          * (hi - lo))) [0..<n]))"
    by (simp add: o_def)
qed

theorem predict_is_unnormalized_mean_witness:
  "predict example_predict example_sklearn None = Inr (Vector [Fin 0, Fin 7.5])
   \<and> predict example_predict example_sklearn (Some ()) = Inr (Vector [Fin 0, Fin 3.75])"
proof -
  have d: "sk_data example_sklearn = Some \<lparr> dat_X = (), dat_y = example_target \<rparr>"
    by (simp add: example_sklearn_def)
  have lo: "original_y_min (dat_y \<lparr> dat_X = (), dat_y = example_target \<rparr>) = Some (Fin 0)"
    and hi: "original_y_max (dat_y \<lparr> dat_X = (), dat_y = example_target \<rparr>) = Some (Fin 10)"
    by (simp_all add: example_target_def)
  have up: "[0..<2] = [0, Suc 0]" by (simp add: upt_rec)
  show ?thesis
    using predict_is_unnormalized_mean [OF d lo hi, where P = "[[- 0.5, 0.5], [- 0.5, 0]]" and n = 2
        and Model_predict = example_predict and ms = "[1, 2]" and X = "()"
        and q = "\<lambda>m. [- 0.5, real m / 4 - 0.5]"]
    by (simp add: example_sklearn_def example_predict_def up)
qed

section \<open>SklearnModel: the error of the fit\<close>

lemma nd_sub_Fin:
  "length ys = length ps \<Longrightarrow>
   nd_sub (map Fin ys) (Vector (map Fin ps)) = Inr (map Fin (map2 (\<lambda>y p. y - p) ys ps))"
  by (simp add: np_broadcast2_def np_sub_def zip_map1 zip_map2 o_def case_prod_beta)

lemma sum_list_squares_nonneg: "0 \<le> sum_list (map (\<lambda>r. r * r) (rs :: real list))"
  by (rule sum_list_nonneg) auto

lemma rmse_Fin:
  assumes "predict Model_predict self X = Inr (Vector (map Fin ps))" "length ys = length ps"
  shows "rmse Model_predict self X (Some (map Fin ys)) =
     Inr (Fin (sqrt (sum_list (map (\<lambda>r. r * r) (map2 (\<lambda>y p. y - p) ys ps)))))"
proof -
  let ?rs = "map2 (\<lambda>y p. y - p) ys ps"
  have r: "residuals Model_predict self X (Some (map Fin ys)) = Inr (map Fin ?rs)"
    using assms(1) nd_sub_Fin [OF assms(2)] by (simp add: residuals_def)
  have "map np_square (map Fin ?rs) = map Fin (map (\<lambda>r. r * r) ?rs)"
    by (simp add: np_square_def o_def)
  then have l2: "l2_error Model_predict self X (Some (map Fin ys)) =
      Inr (map Fin (map (\<lambda>r. r * r) ?rs))"
    by (simp add: l2_error_def r)
  have nn: "\<not> sum_list (map (\<lambda>r. r * r) ?rs) < 0"
    using sum_list_squares_nonneg [of ?rs] by (simp only: not_less)
  show ?thesis
    unfolding rmse_def l2 by (simp only: sum.case np_sum_Fin np_sqrt.simps nn if_False)
qed

text \<open>
  Claim C9: for a fitted model whose prediction for \<open>X\<close> is the finite vector \<open>ps\<close>, and
  finite targets \<open>ys\<close> of the same length, \<open>rmse(X, y)\<close> is the square root of the sum
  of the squared residuals \<open>y - p\<close>; it does not divide by the number of observations.
  When every residual has magnitude \<open>e\<close>, \<open>rmse\<close> returns \<open>sqrt n * e\<close> for \<open>n\<close>
  observations.
\<close>

theorem rmse_is_root_of_sum:
  assumes "predict Model_predict self X = Inr (Vector (map Fin ps))" "length ys = length ps"
  shows "rmse Model_predict self X (Some (map Fin ys)) =
           Inr (Fin (sqrt (\<Sum>(y, p)\<leftarrow>zip ys ps. (y - p)\<^sup>2)))
     \<and> ((\<forall>(y, p) \<in> set (zip ys ps). \<bar>y - p\<bar> = e) \<longrightarrow>
           rmse Model_predict self X (Some (map Fin ys)) = Inr (Fin (sqrt (real (length ys)) * e)))"
proof -
  have sq: "sum_list (map (\<lambda>r. r * r) (map2 (\<lambda>y p. y - p) ys ps)) =
      (\<Sum>(y, p)\<leftarrow>zip ys ps. (y - p)\<^sup>2)"
    by (simp add: o_def case_prod_unfold power2_eq_square)
  have a: "rmse Model_predict self X (Some (map Fin ys)) =
           Inr (Fin (sqrt (\<Sum>(y, p)\<leftarrow>zip ys ps. (y - p)\<^sup>2)))"
    using rmse_Fin [OF assms] by (simp only: sq)
  have b: "rmse Model_predict self X (Some (map Fin ys)) = Inr (Fin (sqrt (real (length ys)) * e))"
    if e: "\<forall>(y, p) \<in> set (zip ys ps). \<bar>y - p\<bar> = e"
  proof -
    have "map (\<lambda>(y, p). (y - p)\<^sup>2) (zip ys ps) = map (\<lambda>_. e\<^sup>2) (zip ys ps)"
    proof (rule map_cong [OF refl])
      fix x assume "x \<in> set (zip ys ps)"
      then have "\<bar>fst x - snd x\<bar> = e" using e by auto
      then have "(fst x - snd x)\<^sup>2 = e\<^sup>2" by (metis power2_abs)
      then show "(case x of (y, p) \<Rightarrow> (y - p)\<^sup>2) = e\<^sup>2" by (simp add: case_prod_beta)
    qed
    then have "(\<Sum>(y, p)\<leftarrow>zip ys ps. (y - p)\<^sup>2) = sum_list (map (\<lambda>_. e\<^sup>2) (zip ys ps))"
      by (simp only:)
    also have "\<dots> = real (length (zip ys ps)) * e\<^sup>2"
      by (simp add: sum_list_triv)
    also have "length (zip ys ps) = length ys"
      using assms(2) by simp
    finally have s: "(\<Sum>(y, p)\<leftarrow>zip ys ps. (y - p)\<^sup>2) = real (length ys) * e\<^sup>2" .
    have e0: "ys \<noteq> [] \<Longrightarrow> 0 \<le> e"
    proof -
      assume "ys \<noteq> []"
      then obtain x where "x \<in> set (zip ys ps)"
        using assms(2) by (cases ys; cases ps) auto
      then have "\<bar>fst x - snd x\<bar> = e" using e by auto
      then show "0 \<le> e" by (metis abs_ge_zero)
    qed
    have "sqrt (real (length ys) * e\<^sup>2) = sqrt (real (length ys)) * e"
    proof (cases "ys = []")
      case True
      then show ?thesis by simp
    next
      case False
      then have "\<bar>e\<bar> = e" using e0 by simp
      then show ?thesis by (simp add: real_sqrt_mult)
    qed
    then show ?thesis using a s by simp
  qed
  show ?thesis using a b by blast
qed

lemma example_in_sample_prediction:
  "predict example_predict example_sklearn None = Inr (Vector [Fin 0, Fin 7.5])"
  by (simp add: predict_def example_sklearn_def example_target_def mean_axis0_def np_mean_def
      np_sum_def unnormalize_y_def np_sub_def upt_rec)

theorem rmse_is_root_of_sum_witness:
  "rmse example_predict example_sklearn None (Some [Fin 3, Fin 4.5]) = Inr (Fin (sqrt 2 * 3))"
proof -
  have p: "predict example_predict example_sklearn None = Inr (Vector (map Fin [0, 7.5]))"
    using example_in_sample_prediction by simp
  have h: "\<forall>(y, p) \<in> set (zip [3, 4.5] [0, 7.5]). \<bar>y - p\<bar> = (3::real)"
    by simp
  have "rmse example_predict example_sklearn None (Some (map Fin [3, 4.5])) =
      Inr (Fin (sqrt (real (length [3, 4.5::real])) * 3))"
    using rmse_is_root_of_sum [OF p, where ys = "[3, 4.5]" and e = 3] h by fastforce
  then show ?thesis by simp
qed

section \<open>SklearnModel: malformed hyperparameters\<close>

lemma normalize_y_nonempty: "y \<noteq> [] \<Longrightarrow> \<exists>ny. normalize_y y = Inr ny"
  by (cases y) (simp_all add: normalize_y_def)

lemma Target_init_normalize_nonempty:
  assumes "y \<noteq> []"
  shows "\<exists>t lo hi. Target_init y msk n True y_sum = Inr t
     \<and> original_y_min t = Some lo \<and> original_y_max t = Some hi"
proof -
  obtain a as where y: "y = a # as" using assms by (cases y) auto
  obtain ny where ny: "normalize_y y = Inr ny"
    using normalize_y_nonempty [OF assms] by blast
  have mn: "np_min y = Inr (fold np_minimum as a)" and mx: "np_max y = Inr (fold np_maximum as a)"
    by (simp_all add: y)
  show ?thesis
    by (simp add: Target_init_def ny mn mx)
qed

lemma construct_model_nonempty:
  assumes "y \<noteq> []"
  shows "\<exists>d sg. construct_model Model_init self X y =
      Inr (Model_init d sg (sk_n_trees self) (sk_alpha self) (sk_beta self),
           self\<lparr> sk_data := Some d, sk_sigma := Some sg,
                 sk_model := Some (Model_init d sg (sk_n_trees self) (sk_alpha self) (sk_beta self)) \<rparr>)"
proof -
  obtain t lo hi where t: "Target_init y (replicate (length y) False) (int (length y)) True None = Inr t"
    and lo: "original_y_min t = Some lo" and hi: "original_y_max t = Some hi"
    using Target_init_normalize_nonempty [OF assms] by blast
  have d: "convert_covariates_to_data X y = Inr \<lparr> dat_X = X, dat_y = t \<rparr>"
    by (simp add: convert_covariates_to_data_def Data_init_def t)
  have sc: "normalizing_scale (dat_y \<lparr> dat_X = X, dat_y = t \<rparr>) = Inr (np_sub hi lo)"
    by (simp add: normalizing_scale_def lo hi)
  show ?thesis
    unfolding construct_model_def d
    by (simp only: sum.case sc Let_def) blast
qed

lemma run_chain_malformed:
  assumes "y \<noteq> []" "sk_n_burn model < 0 \<or> sk_thin model \<le> 0 \<or> 1 < sk_thin model"
  shows "run_chain (ModelSampler_samples sweep in_sample) Model_init model X y =
     (Inl ConfigurationError, 0)"
proof -
  obtain d sg where "construct_model Model_init model X y =
      Inr (Model_init d sg (sk_n_trees model) (sk_alpha model) (sk_beta model),
           model\<lparr> sk_data := Some d, sk_sigma := Some sg,
                 sk_model := Some (Model_init d sg (sk_n_trees model) (sk_alpha model) (sk_beta model)) \<rparr>)"
    using construct_model_nonempty [OF assms(1), of Model_init model X] by blast
  then show ?thesis
    using assms(2) by (auto simp: run_chain_def ModelSampler_samples_def)
qed

lemma parallel_collect_count_zero:
  "snd (parallel_collect (replicate k (Inl e, 0))) = 0"
  by (induction k) (simp_all add: case_prod_beta)

lemma parallel_collect_all_fail:
  "0 < k \<Longrightarrow> parallel_collect (replicate k (Inl e, 0)) = (Inl e, 0)"
  using parallel_collect_count_zero [of "k - 1" e]
  by (cases k) (simp_all add: case_prod_beta)

lemma fit_malformed:
  assumes "y \<noteq> []" "sk_n_burn self < 0 \<or> sk_thin self \<le> 0 \<or> 1 < sk_thin self"
    "1 \<le> sk_n_chains self"
  shows "fit (ModelSampler_samples sweep in_sample) Model_init self X y =
     (Inl ConfigurationError, 0)"
proof -
  obtain d sg where cm: "construct_model Model_init self X y =
      Inr (Model_init d sg (sk_n_trees self) (sk_alpha self) (sk_beta self),
           self\<lparr> sk_data := Some d, sk_sigma := Some sg,
                 sk_model := Some (Model_init d sg (sk_n_trees self) (sk_alpha self) (sk_beta self)) \<rparr>)"
    using construct_model_nonempty [OF assms(1), of Model_init self X] by blast
  let ?self1 = "self\<lparr> sk_data := Some d, sk_sigma := Some sg,
                 sk_model := Some (Model_init d sg (sk_n_trees self) (sk_alpha self) (sk_beta self)) \<rparr>"
  have rc: "run_chain (ModelSampler_samples sweep in_sample) Model_init ?self1 X y =
     (Inl ConfigurationError, 0)"
    by (rule run_chain_malformed [OF assms(1)]) (use assms(2) in simp)
  have k: "0 < nat (sk_n_chains ?self1)" using assms(3) by simp
  have runs: "map (\<lambda>(f, model, X', y'). f model X' y')
        (f_delayed_chains (run_chain (ModelSampler_samples sweep in_sample) Model_init) ?self1 X y)
      = replicate (nat (sk_n_chains ?self1)) (Inl ConfigurationError, 0)"
    by (simp only: f_delayed_chains_def f_chains_def map_replicate prod.case rc)
  show ?thesis
    unfolding fit_def cm
    by (simp only: sum.case prod.case runs parallel_collect_all_fail [OF k] Let_def)
qed

text \<open>
  Claim C8, against the proposer and the chain sampler as the spec describes them (their
  code is not among the sources; the constructor and \<open>fit\<close> of \<open>SklearnModel\<close> check
  nothing themselves and hand the hyperparameters on):
  \<^item> when \<open>p_grow + p_prune\<close> is not 1, constructing the model fails with a
    configuration error, in the constructor of the proposer;
  \<^item> when the probabilities sum to 1 and \<open>n_burn < 0\<close> or \<open>thin\<close> lies outside
    \<open>(0, 1]\<close>, the model is constructed with these values, and \<open>fit\<close> on a non-empty
    target with at least one chain fails with a configuration error after zero sweeps
    over all chains.
\<close>

theorem malformed_hyperparameters_fail_before_sampling:
  "(p_grow + p_prune \<noteq> 1 \<longrightarrow>
      (SklearnModel_init n_trees n_chains sigma_a sigma_b n_samples n_burn thin p_grow p_prune
         alpha beta store_predictions store_acceptance n_jobs default_scalar_sampler
         :: error + ('x, 'm, 'a) SklearnModel) = Inl ConfigurationError)
   \<and> (p_grow + p_prune = 1 \<longrightarrow> (n_burn < 0 \<or> thin \<le> 0 \<or> 1 < thin) \<longrightarrow>
        1 \<le> n_chains \<longrightarrow> y \<noteq> [] \<longrightarrow>
        (\<exists>self :: ('x, 'm, 'a) SklearnModel.
            SklearnModel_init n_trees n_chains sigma_a sigma_b n_samples n_burn thin p_grow p_prune
              alpha beta store_predictions store_acceptance n_jobs default_scalar_sampler = Inr self
          \<and> sk_n_burn self = n_burn \<and> sk_thin self = thin
          \<and> fit (ModelSampler_samples sweep in_sample) Model_init self X y =
              (Inl ConfigurationError, 0)))"
proof (intro conjI impI)
  assume "p_grow + p_prune \<noteq> 1"
  then show "(SklearnModel_init n_trees n_chains sigma_a sigma_b n_samples n_burn thin p_grow p_prune
         alpha beta store_predictions store_acceptance n_jobs default_scalar_sampler
         :: error + ('x, 'm, 'a) SklearnModel) = Inl ConfigurationError"
    by (simp add: SklearnModel_init_def UniformMutationProposer_init_def)
next
  assume p: "p_grow + p_prune = 1" and bad: "n_burn < 0 \<or> thin \<le> 0 \<or> 1 < thin"
    and ch: "1 \<le> n_chains" and y: "y \<noteq> []"
  obtain self :: "('x, 'm, 'a) SklearnModel" where
    init: "SklearnModel_init n_trees n_chains sigma_a sigma_b n_samples n_burn thin p_grow p_prune
              alpha beta store_predictions store_acceptance n_jobs default_scalar_sampler = Inr self"
    and f: "sk_n_burn self = n_burn" "sk_thin self = thin" "sk_n_chains self = n_chains"
    using p by (simp add: SklearnModel_init_def UniformMutationProposer_init_def Let_def)
  have "fit (ModelSampler_samples sweep in_sample) Model_init self X y =
              (Inl ConfigurationError, 0)"
    by (rule fit_malformed [OF y]) (use bad ch f in simp_all)
  with init f show "\<exists>self :: ('x, 'm, 'a) SklearnModel.
            SklearnModel_init n_trees n_chains sigma_a sigma_b n_samples n_burn thin p_grow p_prune
              alpha beta store_predictions store_acceptance n_jobs default_scalar_sampler = Inr self
          \<and> sk_n_burn self = n_burn \<and> sk_thin self = thin
          \<and> fit (ModelSampler_samples sweep in_sample) Model_init self X y =
              (Inl ConfigurationError, 0)"
    by blast
qed

theorem malformed_hyperparameters_fail_before_sampling_witness:
  "(SklearnModel_init 1 1 0.001 0.001 4 0 1 0.5 0.6 0.95 2 True True 1 0
      :: error + (unit, nat, nat) SklearnModel) = Inl ConfigurationError
   \<and> (\<exists>self :: (unit, nat, nat) SklearnModel.
        SklearnModel_init 1 1 0.001 0.001 4 (- 1) 1 0.5 0.5 0.95 2 True True 1 0 = Inr self
      \<and> fit (ModelSampler_samples (\<lambda>m. (m, 0)) (\<lambda>m. [])) (\<lambda>d sg k a b. 0) self ()
            [Fin 1, Fin 2] = (Inl ConfigurationError, 0))
   \<and> (\<exists>self :: (unit, nat, nat) SklearnModel.
        SklearnModel_init 1 1 0.001 0.001 4 0 2 0.5 0.5 0.95 2 True True 1 0 = Inr self
      \<and> fit (ModelSampler_samples (\<lambda>m. (m, 0)) (\<lambda>m. [])) (\<lambda>d sg k a b. 0) self ()
            [Fin 1, Fin 2] = (Inl ConfigurationError, 0))"
proof -
  have a: "(SklearnModel_init 1 1 0.001 0.001 4 0 1 0.5 0.6 0.95 2 True True 1 0
      :: error + (unit, nat, nat) SklearnModel) = Inl ConfigurationError"
    using malformed_hyperparameters_fail_before_sampling [where n_trees = 1 and n_chains = 1 and sigma_a = "0.001" and sigma_b = "0.001"
        and n_samples = 4 and n_burn = "0" and thin = 1 and p_grow = "0.5" and p_prune = "0.6"
        and alpha = "0.95" and beta = 2 and store_predictions = True
        and store_acceptance = True and n_jobs = 1 and default_scalar_sampler = 0
        and sweep = "\<lambda>m. (m, 0)" and in_sample = "\<lambda>m. []"
        and Model_init = "\<lambda>d sg k a b. 0" and X = "()" and y = "[Fin 1, Fin 2]"
        and ?'x = unit and ?'m = nat and ?'a = nat]
    by simp
  have b: "\<exists>self :: (unit, nat, nat) SklearnModel.
        SklearnModel_init 1 1 0.001 0.001 4 (- 1) 1 0.5 0.5 0.95 2 True True 1 0 = Inr self
      \<and> fit (ModelSampler_samples (\<lambda>m. (m, 0)) (\<lambda>m. [])) (\<lambda>d sg k a b. 0) self ()
            [Fin 1, Fin 2] = (Inl ConfigurationError, 0)"
    using malformed_hyperparameters_fail_before_sampling [where n_trees = 1 and n_chains = 1 and sigma_a = "0.001" and sigma_b = "0.001"
        and n_samples = 4 and n_burn = "- 1" and thin = 1 and p_grow = "0.5" and p_prune = "0.5"
        and alpha = "0.95" and beta = 2 and store_predictions = True
        and store_acceptance = True and n_jobs = 1 and default_scalar_sampler = 0
        and sweep = "\<lambda>m. (m, 0)" and in_sample = "\<lambda>m. []"
        and Model_init = "\<lambda>d sg k a b. 0" and X = "()" and y = "[Fin 1, Fin 2]"
        and ?'x = unit and ?'m = nat and ?'a = nat]
    by auto
  have c: "\<exists>self :: (unit, nat, nat) SklearnModel.
        SklearnModel_init 1 1 0.001 0.001 4 0 2 0.5 0.5 0.95 2 True True 1 0 = Inr self
      \<and> fit (ModelSampler_samples (\<lambda>m. (m, 0)) (\<lambda>m. [])) (\<lambda>d sg k a b. 0) self ()
            [Fin 1, Fin 2] = (Inl ConfigurationError, 0)"
    using malformed_hyperparameters_fail_before_sampling [where n_trees = 1 and n_chains = 1 and sigma_a = "0.001" and sigma_b = "0.001"
        and n_samples = 4 and n_burn = "0" and thin = 2 and p_grow = "0.5" and p_prune = "0.5"
        and alpha = "0.95" and beta = 2 and store_predictions = True
        and store_acceptance = True and n_jobs = 1 and default_scalar_sampler = 0
        and sweep = "\<lambda>m. (m, 0)" and in_sample = "\<lambda>m. []"
        and Model_init = "\<lambda>d sg k a b. 0" and X = "()" and y = "[Fin 1, Fin 2]"
        and ?'x = unit and ?'m = nat and ?'a = nat]
    by auto
  show ?thesis using a b c by blast
qed

section \<open>SklearnModel: combining the chains\<close>






















end
